(* ===== verification/Prelude.thy ===== *)
theory Prelude
  imports Complex_Main "HOL-Library.Sublist"
begin

text \<open>
  Shared vocabulary of the development. A Python \<open>str\<close> is a sequence of Unicode code
  points, so it is modelled as a list of \<open>nat\<close> code points (\<open>pystr\<close>), not as an
  Isabelle \<open>string\<close> (whose characters are bytes). \<open>ustr\<close> turns an ASCII literal
  into a \<open>pystr\<close> for the concrete examples. Python floats are modelled as \<open>real\<close>
  (rounding is not modelled), Python ints as \<open>int\<close> or \<open>nat\<close>.
  The exceptions the pipeline can raise are the constructors of \<open>py_error\<close>; a
  computation that may raise returns \<open>py_error + 'a\<close>, with \<open>Inl\<close> the exception.
  The theory also holds the character classes of CPython that the string methods use
  and the generic list lemmas the component theories share.
\<close>

type_synonym pychar = nat
type_synonym pystr = "pychar list"

datatype py_error =
    ValueError        \<comment> \<open>\<open>min\<close>/\<open>max\<close> of an empty sequence\<close>
  | IndexError        \<comment> \<open>\<open>xs[0]\<close> of an empty list\<close>
  | KeyError          \<comment> \<open>a missing key of the input JSON\<close>
  | ZeroDivisionError \<comment> \<open>float division by zero\<close>
  | EmbeddingFailure  \<comment> \<open>the embedding backend raised\<close>
  | PdfOpenFailure    \<comment> \<open>\<open>fitz.open\<close> raised on an unreadable file\<close>

text \<open>Sequencing of computations that may raise: the exception propagates.\<close>

definition py_bind :: "py_error + 'a \<Rightarrow> ('a \<Rightarrow> py_error + 'b) \<Rightarrow> py_error + 'b" where
  "py_bind m f = (case m of Inl e \<Rightarrow> Inl e | Inr x \<Rightarrow> f x)"

lemma py_bind_simps [simp]:
  "py_bind (Inl e) f = Inl e"
  "py_bind (Inr x) f = f x"
  by (simp_all add: py_bind_def)

lemma py_bind_eq_Inr:
  "py_bind m f = Inr y \<longleftrightarrow> (\<exists>x. m = Inr x \<and> f x = Inr y)"
  by (cases m) auto

named_theorems pyclass_simps "unfolding of the CPython character classes"

definition ustr :: "string \<Rightarrow> pystr" where
  "ustr s = map of_char s"

text \<open>
  \<open>Py_UNICODE_ISSPACE\<close> (CPython \<^verbatim>\<open>Objects/unicodectype.c\<close>): the ASCII
  whitespace 0x09--0x0D, 0x1C--0x20 and the Unicode characters of bidirectional type
  WS, B or S or category Zs. \<^verbatim>\<open>str.strip()\<close> and the regular expression class
  \<^verbatim>\<open>\s\<close> on a \<open>str\<close> pattern both use it.
\<close>

definition py_isspace :: "pychar \<Rightarrow> bool" where
  "py_isspace c \<longleftrightarrow>
     (9 \<le> c \<and> c \<le> 13) \<or> (28 \<le> c \<and> c \<le> 32) \<or> c = 133 \<or> c = 160 \<or> c = 5760 \<or>
     (8192 \<le> c \<and> c \<le> 8202) \<or> c = 8232 \<or> c = 8233 \<or> c = 8239 \<or> c = 8287 \<or> c = 12288"

text \<open>The character class \<^verbatim>\<open>[\x20-\x7E]\<close>: printable ASCII.\<close>

definition printable :: "pychar \<Rightarrow> bool" where
  "printable c \<longleftrightarrow> 32 \<le> c \<and> c \<le> 126"

declare py_isspace_def [pyclass_simps] printable_def [pyclass_simps]

lemma printable_isspace [simp]: "printable c \<Longrightarrow> py_isspace c \<longleftrightarrow> c = 32"
  by (auto simp: pyclass_simps)

lemma isspace_32 [simp]: "py_isspace 32"
  by (simp add: py_isspace_def)

lemma printable_32 [simp]: "printable 32"
  by (simp add: printable_def)

subsection \<open>Generic list lemmas\<close>

lemma those_map_Some:
  "(\<forall>x\<in>set xs. f x \<noteq> None) \<Longrightarrow> those (map f xs) = Some (map (\<lambda>x. the (f x)) xs)"
  by (induction xs) auto

lemma those_map_None:
  "(\<exists>x\<in>set xs. f x = None) \<Longrightarrow> those (map f xs) = None"
  by (induction xs) (auto split: option.splits)

lemma those_length: "those xs = Some ys \<Longrightarrow> length ys = length xs"
  by (induction xs arbitrary: ys) (auto split: option.splits)

lemma map_map2_left:
  "length ys = length xs \<Longrightarrow> (\<And>x y. h (f x y) = g x) \<Longrightarrow> map h (map2 f xs ys) = map g xs"
  by (induction xs arbitrary: ys) (auto simp: length_Suc_conv)

lemma concat_map_singleton_if:
  "concat (map (\<lambda>x. if P x then [f x] else []) xs) = map f (filter P xs)"
  by (induction xs) auto

lemma map2_map_right: "map2 f xs (map g xs) = map (\<lambda>x. f x (g x)) xs"
  by (induction xs) auto

end
