(* ===== verification/PyStr.thy ===== *)
theory PyStr
  imports Prelude
begin

text \<open>
  The Python \<open>str\<close> operations that \<^verbatim>\<open>src/src/main.py\<close> calls, each modelled after
  CPython's implementation: \<^verbatim>\<open>str.strip()\<close>, the \<^verbatim>\<open>in\<close> substring test,
  \<^verbatim>\<open>str.replace\<close>, \<^verbatim>\<open>str.isupper()\<close>, \<^verbatim>\<open>" ".join\<close> and the two
  \<^verbatim>\<open>re.sub\<close> calls of \<^verbatim>\<open>clean_refined_text\<close>. Each comes with the lemma that
  relates it to its declarative reading (substring, character map, quantifiers over the
  characters), which the component proofs use instead of the recursive definitions.
\<close>

subsection \<open>\<^verbatim>\<open>str.strip()\<close>\<close>

text \<open>CPython \<^verbatim>\<open>do_strip\<close>: skip whitespace from the left, then from the right.\<close>

definition py_strip :: "pystr \<Rightarrow> pystr" where
  "py_strip s = rev (dropWhile py_isspace (rev (dropWhile py_isspace s)))"

subsection \<open>The \<^verbatim>\<open>in\<close> test on strings\<close>

fun py_contains :: "pystr \<Rightarrow> pystr \<Rightarrow> bool" where
  "py_contains n [] \<longleftrightarrow> n = []"
| "py_contains n (c # cs) \<longleftrightarrow> prefix n (c # cs) \<or> py_contains n cs"

subsection \<open>\<^verbatim>\<open>str.replace(old, new)\<close>\<close>

text \<open>
  Left to right, non-overlapping; an empty \<open>old\<close> inserts \<open>new\<close> around every
  character (\<^verbatim>\<open>"ab".replace("", "-") == "-a-b-"\<close>).
\<close>

function py_replace :: "pystr \<Rightarrow> pystr \<Rightarrow> pystr \<Rightarrow> pystr" where
  "py_replace old new s =
     (if old = [] then new @ concat (map (\<lambda>c. c # new) s)
      else if s = [] then []
      else if prefix old s then new @ py_replace old new (drop (length old) s)
      else hd s # py_replace old new (tl s))"
  by pat_completeness auto
termination
  by (relation "measure (\<lambda>(old, new, s). length s)") auto

declare py_replace.simps [simp del]

subsection \<open>\<^verbatim>\<open>str.isupper()\<close>\<close>

text \<open>
  The case class of a code point in the Unicode database, as CPython's
  \<^verbatim>\<open>Py_UNICODE_ISUPPER\<close>, \<^verbatim>\<open>Py_UNICODE_ISLOWER\<close> and \<^verbatim>\<open>Py_UNICODE_ISTITLE\<close>
  read it. The database itself is a parameter (\<open>char_case\<close>); \<open>ascii_case\<close> is its
  restriction to ASCII, exact on ASCII input.
\<close>

datatype ucase = Upper | Lower | Title | Uncased

definition ascii_case :: "pychar \<Rightarrow> ucase" where
  "ascii_case c = (if 65 \<le> c \<and> c \<le> 90 then Upper else if 97 \<le> c \<and> c \<le> 122 then Lower else Uncased)"

text \<open>
  CPython \<^verbatim>\<open>unicode_isupper_impl\<close>: one character is tested directly; otherwise
  the scan returns \<open>False\<close> at the first lower- or title-case character and else whether
  it met a cased (upper-case) one.
\<close>

fun isupper_scan :: "(pychar \<Rightarrow> ucase) \<Rightarrow> bool \<Rightarrow> pystr \<Rightarrow> bool" where
  "isupper_scan cc cased [] = cased"
| "isupper_scan cc cased (c # cs) =
     (if cc c = Lower \<or> cc c = Title then False
      else isupper_scan cc (cased \<or> cc c = Upper) cs)"

definition py_isupper :: "(pychar \<Rightarrow> ucase) \<Rightarrow> pystr \<Rightarrow> bool" where
  "py_isupper cc s =
     (case s of [] \<Rightarrow> False | [c] \<Rightarrow> cc c = Upper | _ \<Rightarrow> isupper_scan cc False s)"

subsection \<open>\<^verbatim>\<open>sep.join(xs)\<close>\<close>

fun py_join :: "pystr \<Rightarrow> pystr list \<Rightarrow> pystr" where
  "py_join sep [] = []"
| "py_join sep [x] = x"
| "py_join sep (x # y # ys) = x @ sep @ py_join sep (y # ys)"

subsection \<open>The two \<^verbatim>\<open>re.sub\<close> calls\<close>

text \<open>\<^verbatim>\<open>re.sub(r'[^\x20-\x7E]', '', s)\<close> deletes every code point outside the class.\<close>

definition re_sub_nonprintable :: "pystr \<Rightarrow> pystr" where
  "re_sub_nonprintable s = filter printable s"

text \<open>
  \<^verbatim>\<open>re.sub(r'\s+', ' ', s)\<close>: the leftmost greedy match is a maximal run of
  whitespace, replaced by one space; the scan resumes after it.
\<close>

function re_sub_ws :: "pystr \<Rightarrow> pystr" where
  "re_sub_ws [] = []"
| "re_sub_ws (c # cs) =
     (if py_isspace c then 32 # re_sub_ws (dropWhile py_isspace cs) else c # re_sub_ws cs)"
  by pat_completeness auto
termination
  by (relation "measure length") (auto simp: le_imp_less_Suc length_dropWhile_le)

text \<open>A string in which no two adjacent characters are both whitespace.\<close>

fun no_ws_run :: "pystr \<Rightarrow> bool" where
  "no_ws_run (a # b # cs) \<longleftrightarrow> \<not> (py_isspace a \<and> py_isspace b) \<and> no_ws_run (b # cs)"
| "no_ws_run _ \<longleftrightarrow> True"

subsection \<open>Lemmas on \<^verbatim>\<open>strip\<close>\<close>

lemma rev_dropWhile_rev_prefix:
  "\<exists>t. xs = rev (dropWhile P (rev xs)) @ t \<and> (\<forall>c\<in>set t. P c)"
proof -
  have "rev (dropWhile P (rev xs)) @ rev (takeWhile P (rev xs)) = xs"
    by (metis rev_append rev_rev_ident takeWhile_dropWhile_id)
  moreover have "\<forall>c\<in>set (rev (takeWhile P (rev xs))). P c"
    by (auto dest: set_takeWhileD)
  ultimately show ?thesis by metis
qed

lemma py_strip_decomp:
  "\<exists>l r. s = l @ py_strip s @ r \<and> (\<forall>c\<in>set l. py_isspace c) \<and> (\<forall>c\<in>set r. py_isspace c)"
proof -
  obtain r where r: "dropWhile py_isspace s = py_strip s @ r" "\<forall>c\<in>set r. py_isspace c"
    using rev_dropWhile_rev_prefix [of "dropWhile py_isspace s" py_isspace]
    by (auto simp: py_strip_def)
  have "s = takeWhile py_isspace s @ dropWhile py_isspace s" by simp
  with r show ?thesis
    by (metis set_takeWhileD)
qed

lemma py_strip_set: "set (py_strip s) \<subseteq> set s"
  using py_strip_decomp [of s] by (metis Un_upper1 Un_upper2 dual_order.trans set_append)

lemma py_strip_last: "py_strip s \<noteq> [] \<Longrightarrow> \<not> py_isspace (last (py_strip s))"
  by (simp add: py_strip_def last_rev hd_dropWhile)

lemma py_strip_hd: "py_strip s \<noteq> [] \<Longrightarrow> \<not> py_isspace (hd (py_strip s))"
proof -
  assume ne: "py_strip s \<noteq> []"
  obtain r where r: "dropWhile py_isspace s = py_strip s @ r"
    using rev_dropWhile_rev_prefix [of "dropWhile py_isspace s" py_isspace]
    by (auto simp: py_strip_def)
  with ne have "hd (py_strip s) = hd (dropWhile py_isspace s)" and "dropWhile py_isspace s \<noteq> []"
    by auto
  then show ?thesis by (simp add: hd_dropWhile)
qed

lemma py_strip_fixed:
  "s = [] \<or> (\<not> py_isspace (hd s) \<and> \<not> py_isspace (last s)) \<Longrightarrow> py_strip s = s"
proof (cases "s = []")
  case False
  assume ends: "s = [] \<or> (\<not> py_isspace (hd s) \<and> \<not> py_isspace (last s))"
  with False have "dropWhile py_isspace s = s"
    by (simp add: dropWhile_eq_self_iff)
  moreover from ends False have "dropWhile py_isspace (rev s) = rev s"
    by (simp add: dropWhile_eq_self_iff hd_rev)
  ultimately show ?thesis by (simp add: py_strip_def)
qed (simp add: py_strip_def)

lemma py_strip_idem: "py_strip (py_strip s) = py_strip s"
  by (rule py_strip_fixed) (use py_strip_hd py_strip_last in blast)

subsection \<open>Lemmas on \<^verbatim>\<open>in\<close>, \<^verbatim>\<open>replace\<close>, \<^verbatim>\<open>isupper\<close>, \<^verbatim>\<open>join\<close>\<close>

text \<open>The \<^verbatim>\<open>in\<close> test is the contiguous-substring relation.\<close>

lemma py_contains_sublist: "py_contains n h \<longleftrightarrow> sublist n h"
  by (induction h) (auto simp: sublist_Cons_right)

lemma py_replace_char:
  "py_replace [a] [b] s = map (\<lambda>c. if c = a then b else c) s"
proof (induction s)
  case Nil
  show ?case by (simp add: py_replace.simps)
next
  case (Cons c cs)
  then show ?case by (subst py_replace.simps) auto
qed

lemma py_replace_char_absent: "a \<notin> set s \<Longrightarrow> py_replace [a] [b] s = s"
  unfolding py_replace_char by (induction s) auto

lemma isupper_scan_iff:
  "isupper_scan cc cased s \<longleftrightarrow>
     (\<forall>c\<in>set s. cc c \<noteq> Lower \<and> cc c \<noteq> Title) \<and> (cased \<or> (\<exists>c\<in>set s. cc c = Upper))"
  by (induction s arbitrary: cased) auto

text \<open>
  \<^verbatim>\<open>str.isupper()\<close>: no lower-case or title-case character and at least one
  upper-case one.
\<close>

lemma py_isupper_iff:
  "py_isupper cc s \<longleftrightarrow>
     (\<forall>c\<in>set s. cc c \<noteq> Lower \<and> cc c \<noteq> Title) \<and> (\<exists>c\<in>set s. cc c = Upper)"
  by (cases s rule: remdups_adj.cases) (auto simp: py_isupper_def isupper_scan_iff)

lemma py_join_Cons: "xs \<noteq> [] \<Longrightarrow> py_join sep (x # xs) = x @ sep @ py_join sep xs"
  by (cases xs) auto

lemma py_join_set: "set (py_join sep xs) \<subseteq> set sep \<union> (\<Union>x\<in>set xs. set x)"
  by (induction sep xs rule: py_join.induct) auto

subsection \<open>Lemmas on the two substitutions\<close>

lemma re_sub_ws_nonspace: "\<not> py_isspace c \<Longrightarrow> re_sub_ws (c # cs) = c # re_sub_ws cs"
  by simp

lemma re_sub_ws_set:
  "x \<in> set (re_sub_ws s) \<Longrightarrow> x = 32 \<or> (x \<in> set s \<and> \<not> py_isspace x)"
  by (induction s rule: re_sub_ws.induct) (auto split: if_splits dest: set_dropWhileD)

lemma re_sub_ws_hd:
  "\<not> py_isspace c \<Longrightarrow> re_sub_ws (dropWhile py_isspace s) = [] \<or>
     \<not> py_isspace (hd (re_sub_ws (dropWhile py_isspace s)))"
  by (induction s) auto

lemma no_ws_run_Cons:
  "no_ws_run (c # cs) \<longleftrightarrow> (cs = [] \<or> \<not> (py_isspace c \<and> py_isspace (hd cs))) \<and> no_ws_run cs"
  by (cases cs) auto

lemma re_sub_ws_no_run: "no_ws_run (re_sub_ws s)"
proof (induction s rule: re_sub_ws.induct)
  case 1
  then show ?case by simp
next
  case (2 c cs)
  show ?case
  proof (cases "py_isspace c")
    case True
    have "re_sub_ws (dropWhile py_isspace cs) = [] \<or>
          \<not> py_isspace (hd (re_sub_ws (dropWhile py_isspace cs)))"
      using re_sub_ws_hd [of 65 cs] by (simp add: py_isspace_def)
    with True "2.IH"(1) show ?thesis by (simp add: no_ws_run_Cons)
  next
    case False
    with "2.IH"(2) show ?thesis by (simp add: no_ws_run_Cons)
  qed
qed

lemma re_sub_ws_fixed:
  "(\<forall>c\<in>set s. py_isspace c \<longrightarrow> c = 32) \<Longrightarrow> no_ws_run s \<Longrightarrow> re_sub_ws s = s"
proof (induction s rule: re_sub_ws.induct)
  case 1
  then show ?case by simp
next
  case (2 c cs)
  have "dropWhile py_isspace cs = cs" if "py_isspace c"
    using "2.prems"(2) that by (simp add: no_ws_run_Cons dropWhile_eq_self_iff)
  with 2 show ?case by (auto simp: no_ws_run_Cons)
qed

end
