(* ===== verification/Extract.thy ===== *)
theory Extract
  imports PyStr
begin

text \<open>
  The Block Extractor, \<^verbatim>\<open>extract_blocks\<close> (main.py lines 17--39). The parser
  (PyMuPDF's \<^verbatim>\<open>page.get_text("dict")\<close>) is a black box whose output is the value
  \<open>pdf_doc\<close>: a list of pages, each a list of layout blocks with a type and lines
  of styled spans. The extractor's two result lists are built by nested loops that
  append to them; the model threads the pair through the loops
  (\<open>extract_span\<close>, \<open>extract_layout_block\<close>, \<open>extract_pages\<close>) and proves it equal
  to a declarative list comprehension (\<open>doc_blocks\<close>).
\<close>

subsection \<open>The parser's output\<close>

text \<open>A bounding box \<^verbatim>\<open>(x0, y0, x1, y1)\<close>; \<^verbatim>\<open>bbox[1]\<close> is \<open>y0\<close>, the top edge.\<close>

record rect =
  x0 :: real
  y0 :: real
  x1 :: real
  y1 :: real

record span =
  span_text :: pystr
  span_size :: real
  span_font :: pystr
  span_bbox :: rect

record layout_block =
  block_type :: int
  block_lines :: "span list list"

type_synonym pdf_page = "layout_block list"
type_synonym pdf_doc = "pdf_page list"

subsection \<open>The block dictionary\<close>

text \<open>
  The dictionary appended in line 31, with its keys \<^verbatim>\<open>text\<close> (field \<open>btext\<close>,
  as \<open>text\<close> is an Isar keyword), \<^verbatim>\<open>font_size\<close>, \<^verbatim>\<open>font\<close>, \<^verbatim>\<open>bbox\<close> and
  \<^verbatim>\<open>page\<close>. The keys the scorers add later are record
  extensions of it (theories Score and Select).
\<close>

record text_block =
  btext :: pystr
  font_size :: real
  font :: pystr
  bbox :: rect
  page :: nat

type_synonym extract_acc = "text_block list \<times> real list"

subsection \<open>The loops\<close>

text \<open>Lines 27--38: one span; a span whose stripped text is empty is skipped.\<close>

definition extract_span :: "nat \<Rightarrow> extract_acc \<Rightarrow> span \<Rightarrow> extract_acc" where
  "extract_span page_number acc sp =
     (let t = py_strip (span_text sp) in
      if t = [] then acc
      else (fst acc @ [\<lparr>btext = t, font_size = span_size sp, font = span_font sp,
                        bbox = span_bbox sp, page = page_number\<rparr>],
            snd acc @ [span_size sp]))"

text \<open>Lines 23--27: a layout block of type other than 0 (an image) is skipped.\<close>

definition extract_layout_block :: "nat \<Rightarrow> extract_acc \<Rightarrow> layout_block \<Rightarrow> extract_acc" where
  "extract_layout_block page_number acc blk =
     (if block_type blk \<noteq> 0 then acc
      else foldl (foldl (extract_span page_number)) acc (block_lines blk))"

text \<open>Line 22: \<^verbatim>\<open>enumerate(doc, start=1)\<close>.\<close>

fun extract_pages :: "nat \<Rightarrow> extract_acc \<Rightarrow> pdf_page list \<Rightarrow> extract_acc" where
  "extract_pages page_number acc [] = acc"
| "extract_pages page_number acc (pg # pgs) =
     extract_pages (Suc page_number) (foldl (extract_layout_block page_number) acc pg) pgs"

definition extract_blocks :: "pdf_doc \<Rightarrow> extract_acc" where
  "extract_blocks doc = extract_pages 1 ([], []) doc"

subsection \<open>Declarative reading\<close>

definition span_block :: "nat \<Rightarrow> span \<Rightarrow> text_block" where
  "span_block page_number sp =
     \<lparr>btext = py_strip (span_text sp), font_size = span_size sp, font = span_font sp,
      bbox = span_bbox sp, page = page_number\<rparr>"

definition page_spans :: "pdf_page \<Rightarrow> span list" where
  "page_spans pg = [sp. blk \<leftarrow> pg, block_type blk = 0, line \<leftarrow> block_lines blk, sp \<leftarrow> line]"

definition doc_blocks :: "pdf_doc \<Rightarrow> text_block list" where
  "doc_blocks doc =
     [span_block pn sp. (pn, pg) \<leftarrow> enumerate 1 doc, sp \<leftarrow> page_spans pg,
                        py_strip (span_text sp) \<noteq> []]"

text \<open>The blocks one page contributes, from its list of spans.\<close>

definition kept_blocks :: "nat \<Rightarrow> span list \<Rightarrow> text_block list" where
  "kept_blocks pn sps = map (span_block pn) (filter (\<lambda>sp. py_strip (span_text sp) \<noteq> []) sps)"

text \<open>
  The type invariant of an extracted block: its text is non-empty and already
  stripped, and its page number is 1-based and within the document.
\<close>

definition wf_block :: "nat \<Rightarrow> 'a text_block_scheme \<Rightarrow> bool" where
  "wf_block npages b \<longleftrightarrow>
     btext b \<noteq> [] \<and> py_strip (btext b) = btext b \<and> 1 \<le> page b \<and> page b \<le> npages"

subsection \<open>The loops compute the comprehension\<close>

text \<open>
  Each loop level appends to both lists: the blocks of its part of the document, and
  their font sizes. One lemma per level, the accumulator generalised.
\<close>

lemma font_size_span_block [simp]: "font_size (span_block pn sp) = span_size sp"
  by (simp add: span_block_def)

lemma kept_blocks_simps [simp]:
  "kept_blocks pn [] = []"
  "kept_blocks pn (sp # sps) =
     (if py_strip (span_text sp) = [] then [] else [span_block pn sp]) @ kept_blocks pn sps"
  "kept_blocks pn (xs @ ys) = kept_blocks pn xs @ kept_blocks pn ys"
  by (simp_all add: kept_blocks_def)

lemma foldl_extract_span:
  "foldl (extract_span pn) (bs, sz) sps =
     (bs @ kept_blocks pn sps, sz @ map font_size (kept_blocks pn sps))"
  by (induction sps arbitrary: bs sz) (auto simp: extract_span_def span_block_def Let_def)

lemma foldl_extract_lines:
  "foldl (foldl (extract_span pn)) (bs, sz) lns =
     (bs @ kept_blocks pn (concat lns), sz @ map font_size (kept_blocks pn (concat lns)))"
  by (induction lns arbitrary: bs sz) (simp_all add: foldl_extract_span)

lemma foldl_extract_layout_blocks:
  "foldl (extract_layout_block pn) (bs, sz) pg =
     (bs @ kept_blocks pn (page_spans pg), sz @ map font_size (kept_blocks pn (page_spans pg)))"
  by (induction pg arbitrary: bs sz)
     (simp_all add: extract_layout_block_def foldl_extract_lines page_spans_def)

lemma extract_pages_acc:
  "extract_pages pn (bs, sz) pgs =
     (bs @ concat (map (\<lambda>(n, pg). kept_blocks n (page_spans pg)) (enumerate pn pgs)),
      sz @ map font_size (concat (map (\<lambda>(n, pg). kept_blocks n (page_spans pg)) (enumerate pn pgs))))"
  by (induction pgs arbitrary: pn bs sz) (simp_all add: foldl_extract_layout_blocks)

lemma doc_blocks_kept:
  "doc_blocks doc = concat (map (\<lambda>(n, pg). kept_blocks n (page_spans pg)) (enumerate 1 doc))"
  by (simp add: doc_blocks_def kept_blocks_def split_def concat_map_singleton_if)

lemma extract_blocks_kept:
  "extract_blocks doc =
     (let bs = concat (map (\<lambda>(n, pg). kept_blocks n (page_spans pg)) (enumerate 1 doc))
      in (bs, map font_size bs))"
  by (simp add: extract_blocks_def extract_pages_acc Let_def)

lemma fst_extract_blocks: "fst (extract_blocks doc) = doc_blocks doc"
  by (simp add: extract_blocks_kept doc_blocks_kept Let_def)

subsection \<open>Properties of the extractor\<close>

text \<open>
  C16: The nested loops of \<^verbatim>\<open>extract_blocks\<close> return, in extraction order, one block
  for each span of a text-type layout block whose stripped text is non-empty (the list
  comprehension \<open>doc_blocks\<close>), and as second result exactly the font sizes of those
  blocks, in the same order.
\<close>

theorem extract_blocks_correct:
  "extract_blocks doc = (doc_blocks doc, map font_size (doc_blocks doc))"
  by (simp add: extract_blocks_kept doc_blocks_kept Let_def)

lemma kept_blocks_wf:
  "b \<in> set (kept_blocks n sps) \<Longrightarrow> btext b \<noteq> [] \<and> py_strip (btext b) = btext b \<and> page b = n"
  by (auto simp: kept_blocks_def span_block_def py_strip_idem)

lemma doc_blocks_wf: "b \<in> set (doc_blocks doc) \<Longrightarrow> wf_block (length doc) b"
  by (fastforce simp: doc_blocks_kept wf_block_def in_set_enumerate_eq dest: kept_blocks_wf)

text \<open>
  C17: Every block the extractor returns is well formed: non-empty, stripped text and a
  page number between 1 and the number of pages.
\<close>

theorem extract_blocks_wf:
  "b \<in> set (fst (extract_blocks doc)) \<Longrightarrow> wf_block (length doc) b"
  using doc_blocks_wf [of b doc] by (simp add: fst_extract_blocks)

lemma kept_blocks_page: "map page (kept_blocks n sps) = replicate (length (kept_blocks n sps)) n"
  by (auto simp: kept_blocks_def span_block_def map_replicate_const comp_def)

lemma pages_from_sorted:
  "sorted (map page (concat (map (\<lambda>(n, pg). kept_blocks n (page_spans pg)) (enumerate pn pgs)))) \<and>
   (\<forall>b\<in>set (concat (map (\<lambda>(n, pg). kept_blocks n (page_spans pg)) (enumerate pn pgs))). pn \<le> page b)"
proof (induction pgs arbitrary: pn)
  case Nil
  then show ?case by simp
next
  case (Cons pg pgs)
  have "sorted (map page (kept_blocks pn (page_spans pg)))"
    by (simp add: kept_blocks_page)
  with Cons.IH [of "Suc pn"] show ?case
    by (fastforce simp: sorted_append dest: kept_blocks_wf)
qed

text \<open>
  C23: The extracted blocks are in page order: the page numbers are non-decreasing, as
  the pages are enumerated in the parser's order.
\<close>

theorem extract_blocks_page_sorted: "sorted (map page (fst (extract_blocks doc)))"
  using pages_from_sorted [of 1 doc] by (simp add: extract_blocks_kept Let_def)

theorem extract_blocks_wf_witness:
  "let doc =
     [[\<lparr>block_type = 1, block_lines = []\<rparr>,
       \<lparr>block_type = 0, block_lines =
          [[\<lparr>span_text = ustr '' Intro '', span_size = 12, span_font = ustr ''Arial-Bold'',
             span_bbox = \<lparr>x0 = 0, y0 = 50, x1 = 90, y1 = 62\<rparr>\<rparr>]]\<rparr>]]
   in wf_block (length doc) (hd (fst (extract_blocks doc)))"
  unfolding Let_def
  by (rule extract_blocks_wf) (simp add: extract_blocks_def extract_layout_block_def
      extract_span_def py_strip_def ustr_def py_isspace_def)

end
