(* ===== verification/Score.thy ===== *)
theory Score
  imports Extract
begin

text \<open>
  The Structural Scorer: \<^verbatim>\<open>score_block\<close> (main.py lines 41--50), the document's
  font-size range (line 80, Python's \<^verbatim>\<open>min\<close> and \<^verbatim>\<open>max\<close>) and the loop that
  stores a structure score in every block (lines 82--83). Float division raises on a zero
  divisor, so \<open>py_fdiv\<close> returns \<open>ZeroDivisionError\<close> there; the lemmas show the
  divisor \<^verbatim>\<open>max_size - min_size + 1e-5\<close> is never zero for a document's own range,
  bound the score, show it monotone in the font size, and give the score in closed form
  with the \<^verbatim>\<open>in\<close> and \<^verbatim>\<open>isupper\<close> tests read as what they mean.
\<close>

subsection \<open>Builtins\<close>

definition py_fdiv :: "real \<Rightarrow> real \<Rightarrow> py_error + real" where
  "py_fdiv a b = (if b = 0 then Inl ZeroDivisionError else Inr (a / b))"

text \<open>CPython \<^verbatim>\<open>min_max\<close>: the first item, replaced by each later item that compares less
  (for \<^verbatim>\<open>min\<close>) or greater (for \<^verbatim>\<open>max\<close>); an empty sequence raises \<^verbatim>\<open>ValueError\<close>.\<close>

fun min_from :: "real \<Rightarrow> real list \<Rightarrow> real" where
  "min_from m [] = m"
| "min_from m (x # xs) = min_from (if x < m then x else m) xs"

fun max_from :: "real \<Rightarrow> real list \<Rightarrow> real" where
  "max_from m [] = m"
| "max_from m (x # xs) = max_from (if x > m then x else m) xs"

definition py_min :: "real list \<Rightarrow> py_error + real" where
  "py_min xs = (case xs of [] \<Rightarrow> Inl ValueError | x # xs' \<Rightarrow> Inr (min_from x xs'))"

definition py_max :: "real list \<Rightarrow> py_error + real" where
  "py_max xs = (case xs of [] \<Rightarrow> Inl ValueError | x # xs' \<Rightarrow> Inr (max_from x xs'))"

subsection \<open>The scorer\<close>

text \<open>The constants of lines 42--48: \<^verbatim>\<open>1e-5\<close>, the bonuses and the page-top threshold.\<close>

definition size_eps :: real where "size_eps = 1 / 100000"
definition bold_bonus :: real where "bold_bonus = 1 / 2"
definition upper_bonus :: real where "upper_bonus = 3 / 10"
definition top_bonus :: real where "top_bonus = 3 / 10"
definition page_top :: real where "page_top = 100"

text \<open>
  \<open>cc\<close> is the Unicode case database that \<^verbatim>\<open>str.isupper\<close> consults. The score is
  accumulated in the source's order; the block may be any extension of the block record.
\<close>

definition score_block ::
  "(pychar \<Rightarrow> ucase) \<Rightarrow> 'a text_block_scheme \<Rightarrow> real \<Rightarrow> real \<Rightarrow> py_error + real" where
  "score_block cc block min_size max_size =
     (case py_fdiv (font_size block - min_size) (max_size - min_size + size_eps) of
        Inl e \<Rightarrow> Inl e
      | Inr size_score \<Rightarrow>
          (let score = size_score;
               score = (if py_contains (ustr ''Bold'') (font block) then score + bold_bonus else score);
               score = (if py_isupper cc (btext block) then score + upper_bonus else score);
               score = (if y0 (bbox block) < page_top then score + top_bonus else score)
           in Inr score))"

text \<open>The block after line 83 has the key \<^verbatim>\<open>structure_score\<close>.\<close>

record struct_block = text_block +
  structure_score :: real

definition with_structure_score :: "text_block \<Rightarrow> real \<Rightarrow> struct_block" where
  "with_structure_score b s =
     \<lparr>btext = btext b, font_size = font_size b, font = font b, bbox = bbox b, page = page b,
      structure_score = s\<rparr>"

text \<open>Lines 82--83, stopping at the first exception as the loop would.\<close>

fun score_all ::
  "(pychar \<Rightarrow> ucase) \<Rightarrow> real \<Rightarrow> real \<Rightarrow> text_block list \<Rightarrow> py_error + struct_block list" where
  "score_all cc mn mx [] = Inr []"
| "score_all cc mn mx (b # bs) =
     (case score_block cc b mn mx of
        Inl e \<Rightarrow> Inl e
      | Inr s \<Rightarrow> (case score_all cc mn mx bs of
                   Inl e \<Rightarrow> Inl e
                 | Inr bs' \<Rightarrow> Inr (with_structure_score b s # bs')))"

text \<open>The formula of the scorer's contract, as a sum of its four terms.\<close>

definition structural_formula ::
  "(pychar \<Rightarrow> ucase) \<Rightarrow> 'a text_block_scheme \<Rightarrow> real \<Rightarrow> real \<Rightarrow> real" where
  "structural_formula cc b mn mx =
     (font_size b - mn) / (mx - mn + size_eps)
     + (if py_contains (ustr ''Bold'') (font b) then bold_bonus else 0)
     + (if py_isupper cc (btext b) then upper_bonus else 0)
     + (if y0 (bbox b) < page_top then top_bonus else 0)"

subsection \<open>Lemmas\<close>

lemma with_structure_score_sel [simp]:
  "btext (with_structure_score b s) = btext b"
  "page (with_structure_score b s) = page b"
  "bbox (with_structure_score b s) = bbox b"
  "font_size (with_structure_score b s) = font_size b"
  "font (with_structure_score b s) = font b"
  "structure_score (with_structure_score b s) = s"
  by (simp_all add: with_structure_score_def)

lemma min_from_Min: "min_from m xs = Min (set (m # xs))"
proof -
  have "min_from m xs = fold min xs m"
    by (induction xs arbitrary: m) (auto simp: min_def)
  then show ?thesis by (metis Min.set_eq_fold)
qed

lemma max_from_Max: "max_from m xs = Max (set (m # xs))"
proof -
  have "max_from m xs = fold max xs m"
    by (induction xs arbitrary: m) (auto simp: max_def)
  then show ?thesis by (metis Max.set_eq_fold)
qed

lemma py_min_Inr: "xs \<noteq> [] \<Longrightarrow> py_min xs = Inr (Min (set xs))"
  by (cases xs) (simp_all add: py_min_def min_from_Min)

lemma py_max_Inr: "xs \<noteq> [] \<Longrightarrow> py_max xs = Inr (Max (set xs))"
  by (cases xs) (simp_all add: py_max_def max_from_Max)

lemma size_eps_pos [simp]: "0 < size_eps"
  by (simp add: size_eps_def)

lemma size_divisor_pos: "mn \<le> mx \<Longrightarrow> 0 < mx - mn + size_eps"
  using size_eps_pos by linarith

text \<open>The accumulation of lines 42--50 computes the contract's formula.\<close>

lemma score_block_formula:
  "mn \<le> mx \<Longrightarrow> score_block cc b mn mx = Inr (structural_formula cc b mn mx)"
  using size_divisor_pos [of mn mx]
  by (simp add: score_block_def py_fdiv_def structural_formula_def Let_def)

lemma size_term_bounds:
  assumes "mn \<le> f" "f \<le> mx"
  shows "0 \<le> (f - mn) / (mx - mn + size_eps) \<and> (f - mn) / (mx - mn + size_eps) < 1"
proof -
  have pos: "0 < mx - mn + size_eps" using assms by (intro size_divisor_pos) simp
  moreover have "f - mn < mx - mn + size_eps" using assms size_eps_pos by linarith
  ultimately show ?thesis using assms by (simp add: divide_less_eq_1)
qed

lemma size_term_mono:
  "mn \<le> mx \<Longrightarrow> f \<le> f' \<Longrightarrow> (f - mn) / (mx - mn + size_eps) \<le> (f' - mn) / (mx - mn + size_eps)"
  using size_divisor_pos [of mn mx] by (simp add: divide_right_mono)

lemma score_all_formula:
  "mn \<le> mx \<Longrightarrow>
   score_all cc mn mx bs = Inr (map (\<lambda>b. with_structure_score b (structural_formula cc b mn mx)) bs)"
  by (induction bs) (simp_all add: score_block_formula)

text \<open>
  C6: For a document's own font-size range (\<open>min_size \<le> max_size\<close>, in particular
  \<open>min_size = max_size\<close>), \<^verbatim>\<open>score_block\<close> never raises \<^verbatim>\<open>ZeroDivisionError\<close>: it
  returns a number for every block.
\<close>

theorem score_block_no_div_error:
  "min_size \<le> max_size \<Longrightarrow> \<exists>s. score_block cc b min_size max_size = Inr s"
  by (simp add: score_block_formula)

theorem score_block_no_div_error_witness:
  "\<exists>s. score_block ascii_case
         \<lparr>btext = ustr ''A'', font_size = 12, font = ustr ''Arial'',
          bbox = \<lparr>x0 = 0, y0 = 200, x1 = 10, y1 = 212\<rparr>, page = 1\<rparr> 12 12 = Inr s"
  by (rule score_block_no_div_error) simp

text \<open>
  C4: For a block whose font size lies in the document's range, the structure score is
  at least 0 and below 2.1 (size term in \<open>[0, 1)\<close>, plus at most 0.5 + 0.3 + 0.3).
\<close>

theorem score_block_bounds:
  assumes "min_size \<le> font_size b" "font_size b \<le> max_size"
    and "score_block cc b min_size max_size = Inr s"
  shows "0 \<le> s \<and> s < 21 / 10"
proof -
  define t where "t = (font_size b - min_size) / (max_size - min_size + size_eps)"
  have "s = structural_formula cc b min_size max_size"
    using assms score_block_formula [of min_size max_size cc b] by simp
  then have s: "s = t + (if py_contains (ustr ''Bold'') (font b) then bold_bonus else 0)
     + (if py_isupper cc (btext b) then upper_bonus else 0)
     + (if y0 (bbox b) < page_top then top_bonus else 0)"
    by (simp add: structural_formula_def t_def)
  have "0 \<le> t" "t < 1"
    using size_term_bounds [OF assms(1,2)] by (simp_all add: t_def)
  then show ?thesis
    unfolding s by (simp add: bold_bonus_def upper_bonus_def top_bonus_def)
qed

theorem score_block_bounds_witness:
  "score_block ascii_case
     \<lparr>btext = ustr ''intro'', font_size = 12, font = ustr ''Arial'',
      bbox = \<lparr>x0 = 0, y0 = 200, x1 = 10, y1 = 212\<rparr>, page = 1\<rparr> 8 16 = Inr (400000 / 800001)
   \<and> 0 \<le> (400000 / 800001 :: real) \<and> (400000 / 800001 :: real) < 21 / 10"
proof -
  have sc: "score_block ascii_case
     \<lparr>btext = ustr ''intro'', font_size = 12, font = ustr ''Arial'',
      bbox = \<lparr>x0 = 0, y0 = 200, x1 = 10, y1 = 212\<rparr>, page = 1\<rparr> 8 16 = Inr (400000 / 800001)"
    by (simp add: score_block_formula structural_formula_def size_eps_def page_top_def
        ustr_def py_isupper_def ascii_case_def)
  from score_block_bounds [OF _ _ sc] show ?thesis using sc by simp
qed

text \<open>
  C5: The structure score is monotonically non-decreasing in the font size: for two
  blocks that differ only in font size, within the same document range, the larger font
  never scores lower.
\<close>

theorem score_block_mono:
  assumes "min_size \<le> max_size" "font_size b \<le> f'"
    and "score_block cc b min_size max_size = Inr s"
    and "score_block cc (b\<lparr>font_size := f'\<rparr>) min_size max_size = Inr s'"
  shows "s \<le> s'"
  using assms size_term_mono [OF assms(1,2)]
  by (simp add: score_block_formula structural_formula_def)

theorem score_block_mono_witness:
  "let b = \<lparr>btext = ustr ''Intro'', font_size = 10, font = ustr ''Arial-Bold'',
            bbox = \<lparr>x0 = 0, y0 = 50, x1 = 10, y1 = 62\<rparr>, page = 1\<rparr>
   in score_block ascii_case b 8 16 = Inr (200000 / 800001 + 8 / 10)
    \<and> score_block ascii_case (b\<lparr>font_size := 14\<rparr>) 8 16 = Inr (600000 / 800001 + 8 / 10)
    \<and> (200000 / 800001 + 8 / 10 :: real) \<le> 600000 / 800001 + 8 / 10"
proof -
  let ?b = "\<lparr>btext = ustr ''Intro'', font_size = 10, font = ustr ''Arial-Bold'',
            bbox = \<lparr>x0 = 0, y0 = 50, x1 = 10, y1 = 62\<rparr>, page = 1\<rparr>"
  have s1: "score_block ascii_case ?b 8 16 = Inr (200000 / 800001 + 8 / 10)"
    and s2: "score_block ascii_case (?b\<lparr>font_size := 14\<rparr>) 8 16 = Inr (600000 / 800001 + 8 / 10)"
    by (simp_all add: score_block_formula structural_formula_def size_eps_def page_top_def
        bold_bonus_def top_bonus_def ustr_def py_isupper_def ascii_case_def)
  have "(200000 / 800001 + 8 / 10 :: real) \<le> 600000 / 800001 + 8 / 10"
    by (rule score_block_mono [OF _ _ s1 s2]) simp_all
  with s1 s2 show ?thesis by (simp only: Let_def)
qed


text \<open>
  C7: The scorer's functional specification, with Python's builtins read as what they
  mean: for a document's font-size range the structure score is the normalised font size
  \<open>(font_size - min_size) / (max_size - min_size + 10\<^sup>-\<^sup>5)\<close>, plus 0.5 when
  \<^verbatim>\<open>"Bold"\<close> occurs as a contiguous substring of the font name, plus 0.3 when the
  block's text has no lower-case or title-case character and at least one upper-case
  character, plus 0.3 when the top edge of its box is above 100.
\<close>

theorem score_block_spec:
  assumes "min_size \<le> max_size"
  shows "score_block cc b min_size max_size =
     Inr ((font_size b - min_size) / (max_size - min_size + 1 / 100000)
          + (if sublist (ustr ''Bold'') (font b) then 1 / 2 else 0)
          + (if (\<forall>c\<in>set (btext b). cc c \<noteq> Lower \<and> cc c \<noteq> Title) \<and>
                (\<exists>c\<in>set (btext b). cc c = Upper) then 3 / 10 else 0)
          + (if y0 (bbox b) < 100 then 3 / 10 else 0))"
  using score_block_formula [OF assms, of cc b]
  by (simp add: structural_formula_def py_contains_sublist py_isupper_iff size_eps_def
      bold_bonus_def upper_bonus_def top_bonus_def page_top_def)

theorem score_block_spec_witness:
  "score_block ascii_case
     \<lparr>btext = ustr ''INTRO 2'', font_size = 14, font = ustr ''Arial-BoldMT'',
      bbox = \<lparr>x0 = 0, y0 = 120, x1 = 90, y1 = 134\<rparr>, page = 1\<rparr> 10 14
   = Inr (400000 / 400001 + 1 / 2 + 3 / 10)"
proof -
  have "sublist (ustr ''Bold'') (ustr ''Arial-BoldMT'')"
    unfolding sublist_def by (rule exI [of _ "ustr ''Arial-''"], rule exI [of _ "ustr ''MT''"])
      (simp add: ustr_def)
  then show ?thesis
    using score_block_spec [of 10 14 ascii_case
      "\<lparr>btext = ustr ''INTRO 2'', font_size = 14, font = ustr ''Arial-BoldMT'',
        bbox = \<lparr>x0 = 0, y0 = 120, x1 = 90, y1 = 134\<rparr>, page = 1\<rparr>"]
    by (simp add: ustr_def ascii_case_def)
qed

end
