(* ===== verification/Select.thy ===== *)
theory Select
  imports Score
begin

text \<open>
  The Semantic Scorer and the Section Selector (main.py lines 85--94). The embedding
  backend (\<^verbatim>\<open>embedding_model.encode\<close>, \<^verbatim>\<open>util.cos_sim\<close>) and the Unicode case
  database are black boxes, gathered in the record \<open>runtime\<close> that is passed to the
  pipeline explicitly; an encoding that raises is \<open>None\<close>. The batched call
  \<^verbatim>\<open>encode([b["text"] for b in blocks])\<close> is the per-text encoding in the input order.
  The selector \<^verbatim>\<open>sorted(blocks, key=lambda x: -x["total_score"])[0]\<close> is the head of
  Isabelle's stable insertion sort \<open>sort_key\<close>; it is proved equal to a left-to-right
  scan that keeps the first block of greatest total score (\<open>first_max\<close>).
\<close>

subsection \<open>The black boxes\<close>

record 'v runtime =
  char_case :: "pychar \<Rightarrow> ucase"
  encode :: "pystr \<Rightarrow> 'v option"
  cos_sim :: "'v \<Rightarrow> 'v \<Rightarrow> real"

subsection \<open>Semantic scoring\<close>

text \<open>The block after line 92 has the keys \<^verbatim>\<open>semantic_score\<close> and \<^verbatim>\<open>total_score\<close>.\<close>

record scored_block = struct_block +
  semantic_score :: real
  total_score :: real

definition with_semantic_score :: "struct_block \<Rightarrow> real \<Rightarrow> scored_block" where
  "with_semantic_score b sim =
     \<lparr>btext = btext b, font_size = font_size b, font = font b, bbox = bbox b, page = page b,
      structure_score = structure_score b, semantic_score = sim,
      total_score = structure_score b + sim\<rparr>"

text \<open>Line 85: \<^verbatim>\<open>f"{persona} {job_task}"\<close>.\<close>

definition make_query :: "pystr \<Rightarrow> pystr \<Rightarrow> pystr" where
  "make_query persona job_task = persona @ [32] @ job_task"

text \<open>Lines 86--92: two encoder calls, one similarity row, and the loop over the blocks.\<close>

definition semantic_pass ::
  "'v runtime \<Rightarrow> pystr \<Rightarrow> struct_block list \<Rightarrow> py_error + scored_block list" where
  "semantic_pass rt query blocks =
     (case encode rt query of
        None \<Rightarrow> Inl EmbeddingFailure
      | Some query_embedding \<Rightarrow>
          (case those (map (encode rt) (map btext blocks)) of
             None \<Rightarrow> Inl EmbeddingFailure
           | Some block_embeddings \<Rightarrow>
               (let similarities = map (cos_sim rt query_embedding) block_embeddings
                in Inr (map2 with_semantic_score blocks similarities))))"

subsection \<open>Selection\<close>

text \<open>\<^verbatim>\<open>xs[0]\<close>: \<^verbatim>\<open>IndexError\<close> on an empty list.\<close>

definition py_first :: "'a list \<Rightarrow> py_error + 'a" where
  "py_first xs = (case xs of [] \<Rightarrow> Inl IndexError | x # _ \<Rightarrow> Inr x)"

definition select_top :: "scored_block list \<Rightarrow> py_error + scored_block" where
  "select_top blocks = py_first (sort_key (\<lambda>x. - total_score x) blocks)"

text \<open>The reference selector: scan left to right, replace the best only by a strictly better block.\<close>

fun first_max :: "('a \<Rightarrow> real) \<Rightarrow> 'a \<Rightarrow> 'a list \<Rightarrow> 'a" where
  "first_max f best [] = best"
| "first_max f best (x # xs) = first_max f (if f best < f x then x else best) xs"

subsection \<open>The sort and the scan agree\<close>

lemma with_semantic_score_sel [simp]:
  "btext (with_semantic_score b sim) = btext b"
  "page (with_semantic_score b sim) = page b"
  "bbox (with_semantic_score b sim) = bbox b"
  "semantic_score (with_semantic_score b sim) = sim"
  "total_score (with_semantic_score b sim) = structure_score b + sim"
  by (simp_all add: with_semantic_score_def)

lemma hd_insort_key:
  "hd (insort_key g x ys) = (if ys = [] \<or> g x \<le> g (hd ys) then x else hd ys)"
  by (cases ys) auto

lemma hd_sort_key_Cons:
  "xs \<noteq> [] \<Longrightarrow>
   hd (sort_key g (x # xs)) = (if g x \<le> g (hd (sort_key g xs)) then x else hd (sort_key g xs))"
  by (simp add: hd_insort_key) (metis length_0_conv length_sort)

lemma first_max_Cons:
  "first_max f b (y # ys) = (let m = first_max f y ys in if f m \<le> f b then b else m)"
  by (induction ys arbitrary: b y) (auto simp: Let_def)

lemma hd_sort_key_first_max:
  "hd (sort_key (\<lambda>x. - f x) (x # xs)) = first_max f x xs"
proof (induction xs arbitrary: x)
  case Nil
  then show ?case by simp
next
  case (Cons y ys)
  have ih: "hd (sort_key (\<lambda>x. - f x) (y # ys)) = first_max f y ys"
    by (rule Cons.IH)
  show ?case
    using hd_sort_key_Cons [of "y # ys" "\<lambda>x. - f x" x]
    by (simp del: sort_key_simps first_max.simps add: ih first_max_Cons Let_def)
qed

lemma first_max_spec:
  "\<exists>i<length (b # bs). (b # bs) ! i = first_max f b bs
     \<and> (\<forall>j<length (b # bs). f ((b # bs) ! j) \<le> f (first_max f b bs))
     \<and> (\<forall>j<i. f ((b # bs) ! j) < f (first_max f b bs))"
proof (induction bs arbitrary: b)
  case Nil
  then show ?case by simp
next
  case (Cons y ys)
  obtain i where i: "i < length (y # ys)" "(y # ys) ! i = first_max f y ys"
    "\<forall>j<length (y # ys). f ((y # ys) ! j) \<le> f (first_max f y ys)"
    "\<forall>j<i. f ((y # ys) ! j) < f (first_max f y ys)"
    using Cons.IH by blast
  show ?case
  proof (cases "f (first_max f y ys) \<le> f b")
    case True
    then have r: "first_max f b (y # ys) = b"
      by (simp add: first_max_Cons del: first_max.simps)
    have "\<forall>j<length (b # y # ys). f ((b # y # ys) ! j) \<le> f b"
      using i(3) True by (auto simp: less_Suc_eq_0_disj intro: order_trans)
    with r show ?thesis by (intro exI [of _ 0]) simp
  next
    case False
    then have r: "first_max f b (y # ys) = first_max f y ys"
      by (simp add: first_max_Cons del: first_max.simps)
    have "\<forall>j<length (b # y # ys). f ((b # y # ys) ! j) \<le> f (first_max f y ys)"
      and "\<forall>j<Suc i. f ((b # y # ys) ! j) < f (first_max f y ys)"
      using i(3,4) False by (simp_all add: All_less_Suc2)
    with r i(1,2) show ?thesis by (intro exI [of _ "Suc i"]) simp
  qed
qed

lemma select_top_Nil: "select_top [] = Inl IndexError"
  by (simp add: select_top_def py_first_def)

lemma select_top_Cons: "select_top (b # bs) = Inr (first_max total_score b bs)"
proof -
  have "sort_key (\<lambda>x. - total_score x) (b # bs) \<noteq> []"
    by (metis length_0_conv length_sort list.distinct(1))
  then have "select_top (b # bs) = Inr (hd (sort_key (\<lambda>x. - total_score x) (b # bs)))"
    unfolding select_top_def py_first_def by (auto split: list.split)
  then show ?thesis by (simp only: hd_sort_key_first_max)
qed

subsection \<open>Properties of the selector\<close>

text \<open>
  C2: Selecting the head of the list sorted by descending total score is the same as a
  left-to-right scan that keeps the first block of greatest total score; on an empty
  list the selection raises \<^verbatim>\<open>IndexError\<close>.
\<close>

theorem select_top_first_max:
  "select_top blocks =
     (case blocks of [] \<Rightarrow> Inl IndexError | b # bs \<Rightarrow> Inr (first_max total_score b bs))"
  by (cases blocks) (simp_all add: select_top_Nil select_top_Cons)

text \<open>
  C3: The selected block is a block of the document with the greatest total score, and
  every block before it in extraction order scores strictly less: among blocks with
  equal greatest score the first one is chosen (stable tie-break).
\<close>

theorem select_top_tie_break:
  assumes "select_top blocks = Inr t"
  shows "\<exists>i<length blocks. blocks ! i = t
           \<and> (\<forall>j<length blocks. total_score (blocks ! j) \<le> total_score t)
           \<and> (\<forall>j<i. total_score (blocks ! j) < total_score t)"
proof (cases blocks)
  case Nil
  with assms show ?thesis by (simp add: select_top_Nil)
next
  case (Cons b bs)
  with assms have "t = first_max total_score b bs"
    by (simp add: select_top_Cons)
  with Cons show ?thesis using first_max_spec [of b bs total_score] by simp
qed

theorem select_top_tie_break_witness:
  "let b1 = \<lparr>btext = ustr ''Intro'', font_size = 12, font = [],
             bbox = \<lparr>x0 = 0, y0 = 40, x1 = 9, y1 = 52\<rparr>, page = 1,
             structure_score = 1, semantic_score = 1 / 2, total_score = 3 / 2\<rparr>;
       b0 = b1\<lparr>btext := ustr ''Lead'', total_score := 1\<rparr>;
       b2 = b1\<lparr>btext := ustr ''Methods''\<rparr>
   in select_top [b0, b1, b2] = Inr b1
    \<and> (\<exists>i<length [b0, b1, b2]. [b0, b1, b2] ! i = b1
         \<and> (\<forall>j<length [b0, b1, b2]. total_score ([b0, b1, b2] ! j) \<le> total_score b1)
         \<and> (\<forall>j<i. total_score ([b0, b1, b2] ! j) < total_score b1))"
  unfolding Let_def
  by (intro conjI select_top_tie_break) (simp_all add: select_top_Cons)

subsection \<open>Properties of the semantic scorer\<close>

lemma struct_block_eta:
  "\<lparr>btext = btext b, font_size = font_size b, font = font b, bbox = bbox b, page = page b,
    structure_score = structure_score b\<rparr> = (b :: struct_block)"
  by (cases b) simp

lemma truncate_with_semantic_score:
  "struct_block.truncate (with_semantic_score b sim) = b"
  by (simp add: with_semantic_score_def struct_block.truncate_def struct_block_eta)

lemma semantic_pass_Inr:
  assumes "encode rt query = Some q" and "\<forall>b\<in>set blocks. encode rt (btext b) \<noteq> None"
  shows "semantic_pass rt query blocks =
           Inr (map (\<lambda>b. with_semantic_score b (cos_sim rt q (the (encode rt (btext b))))) blocks)"
proof -
  have "those (map (encode rt) (map btext blocks)) = Some (map (\<lambda>b. the (encode rt (btext b))) blocks)"
    using assms(2) those_map_Some [of "map btext blocks" "encode rt"] by (simp add: comp_def)
  with assms(1) show ?thesis
    by (simp add: semantic_pass_def map2_map_right comp_def)
qed

text \<open>
  C19: When the backend encodes the query and every block text, the semantic pass
  returns the blocks in their order with their extracted fields and structure score
  unchanged, each block's semantic score being the cosine similarity of its own
  embedding to the query embedding, and its total score the sum of its structure score
  and that similarity.
\<close>

theorem semantic_pass_scores:
  assumes "encode rt query = Some q" and "\<forall>b\<in>set blocks. encode rt (btext b) \<noteq> None"
  shows "\<exists>scored. semantic_pass rt query blocks = Inr scored \<and>
           map struct_block.truncate scored = blocks \<and>
           map semantic_score scored = map (\<lambda>b. cos_sim rt q (the (encode rt (btext b)))) blocks \<and>
           map total_score scored =
             map (\<lambda>b. structure_score b + cos_sim rt q (the (encode rt (btext b)))) blocks"
  using semantic_pass_Inr [OF assms] by (simp add: truncate_with_semantic_score comp_def)

text \<open>
  C20: If the backend fails on the query or on any block text, the semantic pass raises
  (the run is aborted): there is no fallback score.
\<close>

theorem semantic_pass_failure:
  assumes "encode rt query = None \<or> (\<exists>b\<in>set blocks. encode rt (btext b) = None)"
  shows "semantic_pass rt query blocks = Inl EmbeddingFailure"
proof (cases "encode rt query")
  case None
  then show ?thesis by (simp add: semantic_pass_def)
next
  case (Some q)
  with assms obtain b where "b \<in> set blocks" "encode rt (btext b) = None"
    by auto
  then have "those (map (\<lambda>b. encode rt (btext b)) blocks) = None"
    by (intro those_map_None) blast
  with Some show ?thesis by (simp add: semantic_pass_def comp_def)
qed

theorem semantic_pass_scores_witness:
  "\<exists>scored.
     semantic_pass
       \<lparr>char_case = ascii_case, encode = (\<lambda>s. Some (length s)),
        cos_sim = (\<lambda>u v. if u = v then 1 else 0)\<rparr> (ustr ''xy'')
       [\<lparr>btext = ustr ''ab'', font_size = 12, font = [],
         bbox = \<lparr>x0 = 0, y0 = 40, x1 = 9, y1 = 52\<rparr>, page = 1, structure_score = 1\<rparr>] = Inr scored \<and>
     map struct_block.truncate scored =
       [\<lparr>btext = ustr ''ab'', font_size = 12, font = [],
         bbox = \<lparr>x0 = 0, y0 = 40, x1 = 9, y1 = 52\<rparr>, page = 1, structure_score = 1\<rparr>] \<and>
     map semantic_score scored = [1] \<and> map total_score scored = [2]"
  using semantic_pass_scores [of
      "\<lparr>char_case = ascii_case, encode = (\<lambda>s. Some (length s)),
        cos_sim = (\<lambda>u v. if u = v then 1 else 0)\<rparr>" "ustr ''xy''" 2
      "[\<lparr>btext = ustr ''ab'', font_size = 12, font = [],
         bbox = \<lparr>x0 = 0, y0 = 40, x1 = 9, y1 = 52\<rparr>, page = 1, structure_score = 1\<rparr>]"]
  by (simp add: ustr_def)

theorem semantic_pass_failure_witness:
  "semantic_pass
     \<lparr>char_case = ascii_case, encode = (\<lambda>s. if 3 < length s then None else Some (length s)),
      cos_sim = (\<lambda>u v. if u = v then 1 else (0 :: real))\<rparr>
     (ustr ''xy'')
     [\<lparr>btext = ustr ''abcd'', font_size = 12, font = [],
       bbox = \<lparr>x0 = 0, y0 = 40, x1 = 9, y1 = 52\<rparr>, page = 1, structure_score = 1\<rparr>]
   = Inl EmbeddingFailure"
  by (rule semantic_pass_failure) (simp add: ustr_def)

end
