(* ===== verification/Refine.thy ===== *)
theory Refine
  imports PyStr Extract
begin

text \<open>
  The Context Refiner, \<^verbatim>\<open>refine_context\<close> (main.py lines 52--65): the blocks of the
  selected block's page, then the loop of lines 56--61 that keeps the texts of the blocks
  whose top edge lies strictly below the selected block's and strictly less than 250
  units further down, in extraction order. The functions take any extension of the
  block record, as the source passes the scored dictionaries.
\<close>

definition context_window :: real where
  "context_window = 250"

text \<open>Lines 56--61, the accumulator \<^verbatim>\<open>context_blocks\<close> threaded through the loop.\<close>

primrec collect_context ::
  "'a text_block_scheme \<Rightarrow> 'a text_block_scheme list \<Rightarrow> pystr list \<Rightarrow> pystr list" where
  "collect_context top_block [] acc = acc"
| "collect_context top_block (b # bs) acc =
     collect_context top_block bs
       (if y0 (bbox b) > y0 (bbox top_block) \<and> y0 (bbox b) < y0 (bbox top_block) + context_window
        then acc @ [btext b] else acc)"

definition refine_context :: "'a text_block_scheme \<Rightarrow> 'a text_block_scheme list \<Rightarrow> pystr" where
  "refine_context top_block all_blocks =
     (let page_blocks = filter (\<lambda>b. page b = page top_block) all_blocks;
          context_blocks = collect_context top_block page_blocks []
      in if context_blocks \<noteq> [] then btext top_block @ [32] @ py_join [32] context_blocks
         else btext top_block)"

text \<open>The window test of line 57--59 as a predicate, for the lemmas.\<close>

definition in_window :: "'a text_block_scheme \<Rightarrow> 'a text_block_scheme \<Rightarrow> bool" where
  "in_window top_block b \<longleftrightarrow>
     page b = page top_block \<and> y0 (bbox top_block) < y0 (bbox b) \<and> y0 (bbox b) < y0 (bbox top_block) + context_window"

subsection \<open>Lemmas\<close>

lemma collect_context_filter:
  "collect_context top_block bs acc =
     acc @ map btext (filter (\<lambda>b. y0 (bbox top_block) < y0 (bbox b) \<and>
                                  y0 (bbox b) < y0 (bbox top_block) + context_window) bs)"
  by (induction bs arbitrary: acc) auto

lemma context_texts:
  "collect_context top_block (filter (\<lambda>b. page b = page top_block) all) [] =
     map btext (filter (in_window top_block) all)"
  by (simp add: collect_context_filter in_window_def [abs_def] conj_commute)

text \<open>
  C11: The refined text is the selected block's text, followed, when some block of the
  same page has its top edge strictly below the selected block's and less than 250 units
  further down, by one space and the texts of all such blocks, in extraction order,
  joined by single spaces; otherwise it is the selected block's text unchanged.
\<close>

theorem refine_context_window:
  "refine_context top_block all =
     (let ctx = map btext (filter (in_window top_block) all)
      in if ctx = [] then btext top_block else btext top_block @ [32] @ py_join [32] ctx)"
  by (simp add: refine_context_def context_texts Let_def)

text \<open>
  C10: The window is open at both ends: a block on the same line as the selected block
  (same top edge) and a block exactly 250 units below it are left out, and a block
  249.9 units below it is kept.
\<close>

theorem refine_context_boundary:
  assumes "page b0 = page top_block" "page b1 = page top_block" "page b2 = page top_block"
    and "y0 (bbox b0) = y0 (bbox top_block)"
    and "y0 (bbox b1) = y0 (bbox top_block) + 250"
    and "y0 (bbox b2) = y0 (bbox top_block) + 2499 / 10"
  shows "refine_context top_block [top_block, b0, b1, b2] = btext top_block @ [32] @ btext b2"
  using assms by (simp add: refine_context_window in_window_def context_window_def)

theorem refine_context_boundary_witness:
  "let t = \<lparr>btext = ustr ''Intro'', font_size = 14, font = ustr ''Arial-Bold'',
            bbox = \<lparr>x0 = 0, y0 = 100, x1 = 50, y1 = 114\<rparr>, page = 2\<rparr>;
       b0 = t\<lparr>btext := ustr ''duction''\<rparr>;
       b1 = t\<lparr>btext := ustr ''far'', bbox := \<lparr>x0 = 0, y0 = 350, x1 = 50, y1 = 360\<rparr>\<rparr>;
       b2 = t\<lparr>btext := ustr ''near'', bbox := \<lparr>x0 = 0, y0 = 3499 / 10, x1 = 50, y1 = 360\<rparr>\<rparr>
   in refine_context t [t, b0, b1, b2] = ustr ''Intro near''"
proof -
  let ?t = "\<lparr>btext = ustr ''Intro'', font_size = 14, font = ustr ''Arial-Bold'',
            bbox = \<lparr>x0 = 0, y0 = 100, x1 = 50, y1 = 114\<rparr>, page = 2\<rparr>"
  let ?b2 = "?t\<lparr>btext := ustr ''near'', bbox := \<lparr>x0 = 0, y0 = 3499 / 10, x1 = 50, y1 = 360\<rparr>\<rparr>"
  have "refine_context ?t [?t, ?t\<lparr>btext := ustr ''duction''\<rparr>,
          ?t\<lparr>btext := ustr ''far'', bbox := \<lparr>x0 = 0, y0 = 350, x1 = 50, y1 = 360\<rparr>\<rparr>, ?b2]
        = btext ?t @ [32] @ btext ?b2"
    by (rule refine_context_boundary) simp_all
  then show ?thesis by (simp add: ustr_def)
qed

end
