(* ===== verification/Clean.thy ===== *)
theory Clean
  imports PyStr
begin

text \<open>
  Text normalisation, \<^verbatim>\<open>clean_refined_text\<close> (main.py lines 67--72): newline and
  bullet (U+2022) become spaces, every code point outside printable ASCII is deleted,
  whitespace runs become one space, and the ends are stripped. The lemmas show the
  result is printable ASCII with single inner spaces and no space at either end, that
  cleaning is idempotent, and that whitespace other than space and newline
  (tab, carriage return, no-break space) is deleted before the runs are collapsed, so
  the words it separated are glued together.
\<close>

definition clean_refined_text :: "pystr \<Rightarrow> pystr" where
  "clean_refined_text text =
     (let text = py_replace [10] [32] (text);
          text = py_replace [8226] [32] text;
          text = re_sub_nonprintable text;
          text = py_strip (re_sub_ws text)
      in text)"

text \<open>The shape of a cleaned text.\<close>

definition clean_shape :: "pystr \<Rightarrow> bool" where
  "clean_shape s \<longleftrightarrow>
     list_all printable s \<and> no_ws_run s \<and> (s = [] \<or> (hd s \<noteq> 32 \<and> last s \<noteq> 32))"

subsection \<open>Lemmas\<close>

lemma no_ws_run_append:
  "no_ws_run (xs @ ys) \<longleftrightarrow>
     no_ws_run xs \<and> no_ws_run ys \<and>
     (xs = [] \<or> ys = [] \<or> \<not> (py_isspace (last xs) \<and> py_isspace (hd ys)))"
  by (induction xs rule: no_ws_run.induct) (auto simp: no_ws_run_Cons)

lemma py_strip_no_ws_run: "no_ws_run s \<Longrightarrow> no_ws_run (py_strip s)"
  using py_strip_decomp [of s] by (metis no_ws_run_append)

lemma clean_refined_text_steps:
  "clean_refined_text t =
     py_strip (re_sub_ws (filter printable
       (map (\<lambda>c. if c = 8226 then 32 else c) (map (\<lambda>c. if c = 10 then 32 else c) t))))"
  by (simp add: clean_refined_text_def py_replace_char re_sub_nonprintable_def)

lemma re_sub_ws_printable: "list_all printable s \<Longrightarrow> list_all printable (re_sub_ws s)"
  by (auto simp: list_all_iff dest: re_sub_ws_set)

lemma printable_not_space: "printable c \<Longrightarrow> c \<noteq> 32 \<Longrightarrow> \<not> py_isspace c"
  by simp

lemma clean_shape_clean: "clean_shape (clean_refined_text t)"
proof -
  define u where "u = re_sub_ws (filter printable
       (map (\<lambda>c. if c = 8226 then 32 else c) (map (\<lambda>c. if c = 10 then 32 else c) t)))"
  have pu: "list_all printable u"
    unfolding u_def by (intro re_sub_ws_printable) (simp add: list_all_iff)
  have ru: "no_ws_run u"
    unfolding u_def by (rule re_sub_ws_no_run)
  have "list_all printable (py_strip u)"
    using pu py_strip_set [of u] by (auto simp: list_all_iff)
  moreover have "no_ws_run (py_strip u)"
    using ru by (rule py_strip_no_ws_run)
  moreover have "py_strip u = [] \<or> (hd (py_strip u) \<noteq> 32 \<and> last (py_strip u) \<noteq> 32)"
    using py_strip_hd [of u] py_strip_last [of u] by auto
  ultimately show ?thesis
    by (simp add: clean_shape_def clean_refined_text_steps u_def)
qed

lemma clean_refined_text_fixed: "clean_shape s \<Longrightarrow> clean_refined_text s = s"
proof -
  assume sh: "clean_shape s"
  then have pr: "\<forall>c\<in>set s. printable c" and run: "no_ws_run s"
    and ends: "s = [] \<or> (hd s \<noteq> 32 \<and> last s \<noteq> 32)"
    by (auto simp: clean_shape_def list_all_iff)
  have "map (\<lambda>c. if c = 10 then 32 else c) s = s"
    and "map (\<lambda>c. if c = 8226 then 32 else c) s = s"
    using pr unfolding printable_def by (induction s) auto
  moreover have "filter printable s = s"
    using pr by simp
  moreover have "re_sub_ws s = s"
    using pr run by (intro re_sub_ws_fixed) auto
  moreover have "py_strip s = s"
  proof (rule py_strip_fixed)
    show "s = [] \<or> \<not> py_isspace (hd s) \<and> \<not> py_isspace (last s)"
      using ends pr by (auto intro: printable_not_space)
  qed
  ultimately show ?thesis by (simp add: clean_refined_text_steps)
qed

text \<open>
  C9: Every cleaned text is printable ASCII, has no two adjacent whitespace characters
  and neither starts nor ends with a space.
\<close>

theorem clean_refined_text_shape:
  "list_all printable (clean_refined_text t) \<and> no_ws_run (clean_refined_text t) \<and>
   (clean_refined_text t = [] \<or>
    (hd (clean_refined_text t) \<noteq> 32 \<and> last (clean_refined_text t) \<noteq> 32))"
  using clean_shape_clean [of t] by (simp add: clean_shape_def)

text \<open>C8: Cleaning is idempotent: cleaning a cleaned text changes nothing.\<close>

theorem clean_refined_text_idem:
  "clean_refined_text (clean_refined_text t) = clean_refined_text t"
  by (rule clean_refined_text_fixed) (rule clean_shape_clean)

text \<open>
  C24: A whitespace character other than the space and the newline (a tab, a form feed,
  a no-break space, an em space, ...) is deleted by the ASCII filter before the
  whitespace runs are collapsed, so it separates nothing: a text with such a character
  between two parts cleans to the same result as the two parts written together. Two
  words separated only by a tab come out as one word.
\<close>

theorem clean_refined_text_glues_words:
  assumes "py_isspace sep" "sep \<noteq> 32" "sep \<noteq> 10"
  shows "clean_refined_text (u @ [sep] @ v) = clean_refined_text (u @ v)"
proof -
  have "\<not> printable sep"
    using assms(1,2) printable_isspace by blast
  moreover have "sep \<noteq> 8226"
    using assms(1) by (auto simp: py_isspace_def)
  ultimately show ?thesis
    using assms(3) by (simp add: clean_refined_text_steps)
qed

theorem clean_refined_text_glues_words_witness:
  "clean_refined_text (ustr ''Name:'' @ [9] @ ustr ''Value'') = ustr ''Name:Value''"
  using clean_refined_text_glues_words [of 9 "ustr ''Name:''" "ustr ''Value''"]
  by (simp add: clean_refined_text_steps ustr_def py_strip_def pyclass_simps)

end
