(* ===== verification/Pipeline.thy ===== *)
theory Pipeline
  imports Select Refine Clean
begin

text \<open>
  The Pipeline Driver: \<^verbatim>\<open>process_pdf\<close> (main.py lines 74--104) composes the
  components for one document, and \<^verbatim>\<open>main\<close> (lines 106--155) runs it over the
  documents of the input descriptor in order, numbering the sections with the global
  counter \<^verbatim>\<open>global_rank\<close>. The file system is a function from file names to
  \<open>pdf_file\<close> (missing, unreadable, or a parsed document); the parsed input JSON is
  a record whose fields are \<open>None\<close> where a key is missing; the outcome of
  \<^verbatim>\<open>main\<close> is the output document it saves, or the exception that aborts it, or
  the early return when the input file is absent. Writing the JSON file and printing
  are not modelled; the timestamp is a parameter.
\<close>

subsection \<open>Data\<close>

datatype pdf_file = Missing | Unreadable | Pdf pdf_doc

text \<open>The entry of \<^verbatim>\<open>extracted_sections\<close> (lines 138--143) and the dictionary
  \<^verbatim>\<open>process_pdf\<close> returns (lines 98--104), which adds \<^verbatim>\<open>refined_text\<close>.\<close>

record extracted_section =
  document :: pystr
  section_title :: pystr
  importance_rank :: int
  page_number :: nat

record pdf_result = extracted_section +
  refined_text :: pystr

text \<open>The entry of \<^verbatim>\<open>subsection_analysis\<close> (lines 144--148).\<close>

record subsection_entry =
  sub_document :: pystr
  sub_refined_text :: pystr
  sub_page_number :: nat

text \<open>The \<^verbatim>\<open>metadata\<close> object; its keys \<^verbatim>\<open>persona\<close> and \<^verbatim>\<open>job_to_be_done\<close> are the
  fields \<open>meta_persona\<close> and \<open>meta_job_to_be_done\<close>.\<close>

record metadata =
  input_documents :: "pystr list"
  meta_persona :: pystr
  meta_job_to_be_done :: pystr
  processing_timestamp :: pystr

record output_data =
  meta :: metadata
  extracted_sections :: "extracted_section list"
  subsection_analysis :: "subsection_entry list"

text \<open>The parsed \<^verbatim>\<open>input.json\<close>: \<open>None\<close> where \<^verbatim>\<open>input_data[...]\<close> raises \<^verbatim>\<open>KeyError\<close>.\<close>

record input_json =
  in_persona_role :: "pystr option"
  in_job_task :: "pystr option"
  in_documents :: "pystr option list option"

datatype main_outcome = InputMissing | Raised py_error | Saved output_data

text \<open>
  \<^verbatim>\<open>(INPUT_PDF_DIR / filename).name\<close>: the last non-empty component other than
  \<^verbatim>\<open>.\<close> of the joined path. When the file name has none, the joined path is the
  input directory (name \<^verbatim>\<open>input\<close>), or the root \<^verbatim>\<open>/\<close> (empty name) when the file
  name is absolute, as pathlib replaces the left operand by an absolute right one.
\<close>

fun split_on :: "pychar \<Rightarrow> pystr \<Rightarrow> pystr list" where
  "split_on d [] = [[]]"
| "split_on d (c # cs) =
     (if c = d then [] # split_on d cs
      else (case split_on d cs of p # ps \<Rightarrow> (c # p) # ps | [] \<Rightarrow> [[c]]))"

definition path_name :: "pystr \<Rightarrow> pystr" where
  "path_name filename =
     (let parts = filter (\<lambda>p. p \<noteq> [] \<and> p \<noteq> [46]) (split_on 47 filename)
      in if parts \<noteq> [] then last parts
         else if take 1 filename = [47] then [] else ustr ''input'')"

subsection \<open>\<^verbatim>\<open>process_pdf\<close>\<close>

definition process_pdf ::
  "'v runtime \<Rightarrow> pystr \<Rightarrow> pdf_file \<Rightarrow> pystr \<Rightarrow> pystr \<Rightarrow> py_error + pdf_result list" where
  "process_pdf rt name pdf persona job_task =
     (case pdf of
        Pdf doc \<Rightarrow>
          (let (blocks, sizes) = extract_blocks doc in
           if sizes = [] then Inr []
           else
             py_bind (py_min sizes) (\<lambda>min_size.
             py_bind (py_max sizes) (\<lambda>max_size.
             py_bind (score_all (char_case rt) min_size max_size blocks) (\<lambda>sblocks.
             py_bind (semantic_pass rt (make_query persona job_task) sblocks) (\<lambda>scored.
             py_bind (select_top scored) (\<lambda>top_block.
               (let refined = refine_context top_block scored;
                    refined_clean = clean_refined_text refined
                in Inr [\<lparr>document = name, section_title = btext top_block, importance_rank = 1,
                         page_number = page top_block, refined_text = refined_clean\<rparr>])))))))
      | _ \<Rightarrow> Inl PdfOpenFailure)"

subsection \<open>\<^verbatim>\<open>main\<close>\<close>

record run_state =
  sections :: "extracted_section list"
  subsections :: "subsection_entry list"
  global_rank :: int

text \<open>Lines 137--149: the body of the inner loop over the sections of one document.\<close>

definition add_section :: "run_state \<Rightarrow> pdf_result \<Rightarrow> run_state" where
  "add_section st s =
     st\<lparr>sections := sections st @
          [\<lparr>document = document s, section_title = section_title s,
            importance_rank = global_rank st, page_number = page_number s\<rparr>],
        subsections := subsections st @
          [\<lparr>sub_document = document s, sub_refined_text = refined_text s,
            sub_page_number = page_number s\<rparr>],
        global_rank := global_rank st + 1\<rparr>"

text \<open>Lines 130--149: the loop over the documents; a missing file is skipped.\<close>

fun main_loop ::
  "'v runtime \<Rightarrow> (pystr \<Rightarrow> pdf_file) \<Rightarrow> pystr \<Rightarrow> pystr \<Rightarrow> run_state \<Rightarrow> pystr list
   \<Rightarrow> py_error + run_state" where
  "main_loop rt fs persona job_task st [] = Inr st"
| "main_loop rt fs persona job_task st (filename # filenames) =
     (if fs filename = Missing then main_loop rt fs persona job_task st filenames
      else (case process_pdf rt (path_name filename) (fs filename) persona job_task of
              Inl e \<Rightarrow> Inl e
            | Inr best \<Rightarrow> main_loop rt fs persona job_task (foldl add_section st best) filenames))"

definition main ::
  "'v runtime \<Rightarrow> input_json option \<Rightarrow> (pystr \<Rightarrow> pdf_file) \<Rightarrow> pystr \<Rightarrow> main_outcome" where
  "main rt input fs timestamp =
     (case input of
        None \<Rightarrow> InputMissing
      | Some input_data \<Rightarrow>
          (case in_persona_role input_data of None \<Rightarrow> Raised KeyError | Some persona \<Rightarrow>
          (case in_job_task input_data of None \<Rightarrow> Raised KeyError | Some job_task \<Rightarrow>
          (case in_documents input_data of None \<Rightarrow> Raised KeyError | Some docs \<Rightarrow>
          (case those docs of None \<Rightarrow> Raised KeyError | Some filenames \<Rightarrow>
          (case main_loop rt fs persona job_task
                  \<lparr>sections = [], subsections = [], global_rank = 1\<rparr> filenames of
             Inl e \<Rightarrow> Raised e
           | Inr st \<Rightarrow>
               Saved \<lparr>meta = \<lparr>input_documents = filenames, meta_persona = persona,
                               meta_job_to_be_done = job_task, processing_timestamp = timestamp\<rparr>,
                      extracted_sections = sections st, subsection_analysis = subsections st\<rparr>))))))"

subsection \<open>The contract of one document\<close>

text \<open>
  The scores the contract assigns to the blocks of one document: the structural formula
  over the document's own font-size range plus the cosine similarity of the block's
  embedding to the query's; \<open>backend_ok\<close> says the encoder succeeds on the query
  and on every block text.
\<close>

definition score_doc :: "'v runtime \<Rightarrow> pystr \<Rightarrow> text_block list \<Rightarrow> scored_block list" where
  "score_doc rt query blocks =
     (let mn = Min (set (map font_size blocks)); mx = Max (set (map font_size blocks));
          q = the (encode rt query)
      in map (\<lambda>b.
           let st = structural_formula (char_case rt) b mn mx;
               sim = cos_sim rt q (the (encode rt (btext b)))
           in \<lparr>btext = btext b, font_size = font_size b, font = font b, bbox = bbox b,
               page = page b, structure_score = st, semantic_score = sim,
               total_score = st + sim\<rparr>) blocks)"

definition backend_ok :: "'v runtime \<Rightarrow> pystr \<Rightarrow> text_block list \<Rightarrow> bool" where
  "backend_ok rt query blocks \<longleftrightarrow>
     encode rt query \<noteq> None \<and> list_all (\<lambda>b. encode rt (btext b) \<noteq> None) blocks"

definition section_of :: "pystr \<Rightarrow> scored_block \<Rightarrow> scored_block list \<Rightarrow> pdf_result" where
  "section_of name t scored =
     \<lparr>document = name, section_title = btext t, importance_rank = 1, page_number = page t,
      refined_text = clean_refined_text (refine_context t scored)\<rparr>"

text \<open>
  The invariant of the driver's loop state: the ranks given so far are 1, 2, ... without
  gaps, the counter is the next rank, and the two output lists agree entry by entry on
  the document and the page.
\<close>

definition run_inv :: "run_state \<Rightarrow> bool" where
  "run_inv st \<longleftrightarrow>
     map importance_rank (sections st) = [1..int (length (sections st))] \<and>
     global_rank st = int (length (sections st)) + 1 \<and>
     map document (sections st) = map sub_document (subsections st) \<and>
     map page_number (sections st) = map sub_page_number (subsections st)"

text \<open>The names of the sections a file contributes when the run succeeds.\<close>

definition doc_entry :: "(pystr \<Rightarrow> pdf_file) \<Rightarrow> pystr \<Rightarrow> pystr list" where
  "doc_entry fs filename =
     (case fs filename of
        Pdf doc \<Rightarrow> if fst (extract_blocks doc) = [] then [] else [path_name filename]
      | _ \<Rightarrow> [])"

subsection \<open>Lemmas on \<^verbatim>\<open>process_pdf\<close>\<close>

lemma Min_le_Max_list: "xs \<noteq> [] \<Longrightarrow> Min (set xs) \<le> Max (set (xs :: real list))"
  by (simp add: Min_le_iff)

lemma process_pdf_Pdf:
  "process_pdf rt name (Pdf doc) persona job_task =
     (let blocks = fst (extract_blocks doc) in
      if blocks = [] then Inr []
      else
        py_bind (score_all (char_case rt) (Min (set (map font_size blocks)))
                   (Max (set (map font_size blocks))) blocks) (\<lambda>sblocks.
        py_bind (semantic_pass rt (make_query persona job_task) sblocks) (\<lambda>scored.
        py_bind (select_top scored) (\<lambda>t. Inr [section_of name t scored]))))"
  by (simp add: process_pdf_def extract_blocks_kept Let_def py_min_Inr py_max_Inr section_of_def)

lemma semantic_pass_score_doc:
  assumes "backend_ok rt query blocks" "blocks \<noteq> []"
  shows "py_bind (score_all (char_case rt) (Min (set (map font_size blocks)))
                   (Max (set (map font_size blocks))) blocks)
           (\<lambda>sblocks. semantic_pass rt query sblocks) = Inr (score_doc rt query blocks)"
proof -
  let ?mn = "Min (set (map font_size blocks))" and ?mx = "Max (set (map font_size blocks))"
  let ?sblocks = "map (\<lambda>b. with_structure_score b (structural_formula (char_case rt) b ?mn ?mx)) blocks"
  have "?mn \<le> ?mx" using assms(2) by (intro Min_le_Max_list) simp
  then have sa: "score_all (char_case rt) ?mn ?mx blocks = Inr ?sblocks"
    by (rule score_all_formula)
  obtain q where q: "encode rt query = Some q"
    using assms(1) by (auto simp: backend_ok_def)
  have "\<forall>b\<in>set ?sblocks. encode rt (btext b) \<noteq> None"
    using assms(1) by (auto simp: backend_ok_def list_all_iff)
  with q have "semantic_pass rt query ?sblocks = Inr (score_doc rt query blocks)"
    by (simp add: semantic_pass_Inr score_doc_def Let_def with_semantic_score_def)
  with sa show ?thesis by simp
qed

subsection \<open>Properties of \<^verbatim>\<open>process_pdf\<close>\<close>

text \<open>
  C1: When the encoder works, \<^verbatim>\<open>process_pdf\<close> implements the per-document contract:
  a document without extractable text yields no section; otherwise it yields exactly one,
  made from the first block of greatest total score under the contract's scores (the
  structural formula over the document's font-size range plus the cosine similarity to
  the query), with that block's text as title, its page, and the cleaned context text.
\<close>

theorem process_pdf_contract:
  assumes "backend_ok rt (make_query persona job_task) (fst (extract_blocks doc))"
  shows "process_pdf rt name (Pdf doc) persona job_task =
     (case score_doc rt (make_query persona job_task) (fst (extract_blocks doc)) of
        [] \<Rightarrow> Inr []
      | t0 # ts \<Rightarrow> Inr [section_of name (first_max total_score t0 ts) (t0 # ts)])"
proof (cases "fst (extract_blocks doc) = []")
  case True
  then show ?thesis by (simp add: process_pdf_Pdf score_doc_def)
next
  case False
  let ?sc = "score_doc rt (make_query persona job_task) (fst (extract_blocks doc))"
  have sp: "py_bind (score_all (char_case rt) (Min (set (map font_size (fst (extract_blocks doc)))))
                 (Max (set (map font_size (fst (extract_blocks doc))))) (fst (extract_blocks doc)))
              (\<lambda>sblocks. semantic_pass rt (make_query persona job_task) sblocks) = Inr ?sc"
    using assms False by (rule semantic_pass_score_doc)
  obtain t0 ts where sc: "?sc = t0 # ts"
    using False by (cases "fst (extract_blocks doc)") (auto simp: score_doc_def Let_def)
  from sp have "process_pdf rt name (Pdf doc) persona job_task =
                  py_bind (select_top ?sc) (\<lambda>t. Inr [section_of name t ?sc])"
    using False by (auto simp: process_pdf_Pdf Let_def py_bind_def split: sum.splits)
  with sc show ?thesis by (simp add: select_top_Cons)
qed

lemma score_all_map:
  "score_all cc mn mx bs = Inr sbs \<Longrightarrow> map btext sbs = map btext bs \<and> map page sbs = map page bs"
  by (induction bs arbitrary: sbs) (auto split: sum.splits)

lemma semantic_pass_map:
  assumes "semantic_pass rt q sbs = Inr scored"
  shows "map btext scored = map btext sbs \<and> map page scored = map page sbs"
proof -
  from assms obtain qe es where
      "those (map (encode rt) (map btext sbs)) = Some es"
    and sc: "scored = map2 with_semantic_score sbs (map (cos_sim rt qe) es)"
    by (auto simp: semantic_pass_def Let_def split: option.splits)
  then have len: "length (map (cos_sim rt qe) es) = length sbs"
    by (auto dest: those_length)
  have "map btext scored = map btext sbs"
    unfolding sc using len by (rule map_map2_left) simp
  moreover have "map page scored = map page sbs"
    unfolding sc using len by (rule map_map2_left) simp
  ultimately show ?thesis by simp
qed

lemma first_max_mem: "first_max f b bs \<in> set (b # bs)"
  by (induction bs arbitrary: b) auto

lemma select_top_mem: "select_top xs = Inr t \<Longrightarrow> t \<in> set xs"
proof (cases xs)
  case (Cons b bs)
  assume "select_top xs = Inr t"
  with Cons have "t = first_max total_score b bs" by (simp add: select_top_Cons)
  with Cons show ?thesis using first_max_mem by metis
qed (simp add: select_top_Nil)

lemma map_eq_mem:
  "map f xs = map f' ys \<Longrightarrow> map g xs = map g' ys \<Longrightarrow> x \<in> set xs \<Longrightarrow>
   \<exists>y\<in>set ys. f x = f' y \<and> g x = g' y"
  by (induction xs arbitrary: ys) (auto simp: Cons_eq_map_conv)

lemma process_pdf_returns:
  assumes "backend_ok rt (make_query persona job_task) (fst (extract_blocks doc))"
  shows "\<exists>rs. process_pdf rt name (Pdf doc) persona job_task = Inr rs"
proof (cases "fst (extract_blocks doc)")
  case Nil
  then show ?thesis by (simp add: process_pdf_Pdf)
next
  case (Cons b bs)
  let ?sc = "score_doc rt (make_query persona job_task) (b # bs)"
  have sp: "py_bind (score_all (char_case rt) (Min (set (map font_size (b # bs))))
                 (Max (set (map font_size (b # bs)))) (b # bs))
              (\<lambda>sblocks. semantic_pass rt (make_query persona job_task) sblocks) = Inr ?sc"
    using assms Cons by (intro semantic_pass_score_doc) simp_all
  have "?sc = hd ?sc # tl ?sc" by (simp add: score_doc_def Let_def)
  then obtain t where "select_top ?sc = Inr t"
    by (metis select_top_Cons)
  with sp Cons show ?thesis
    by (auto simp: process_pdf_Pdf py_bind_def split: sum.splits)
qed

lemma process_pdf_Inr:
  assumes "process_pdf rt name pdf persona job_task = Inr rs"
  shows "\<exists>doc. pdf = Pdf doc \<and>
           (if fst (extract_blocks doc) = [] then rs = []
            else \<exists>t scored. rs = [section_of name t scored] \<and>
                   (\<exists>b\<in>set (fst (extract_blocks doc)). btext t = btext b \<and> page t = page b))"
proof -
  obtain doc where pdf: "pdf = Pdf doc"
    using assms by (cases pdf) (auto simp: process_pdf_def)
  define blocks where "blocks = fst (extract_blocks doc)"
  have eq: "(if blocks = [] then Inr []
             else py_bind (score_all (char_case rt) (Min (set (map font_size blocks)))
                     (Max (set (map font_size blocks))) blocks) (\<lambda>sblocks.
                  py_bind (semantic_pass rt (make_query persona job_task) sblocks) (\<lambda>scored.
                  py_bind (select_top scored) (\<lambda>t. Inr [section_of name t scored])))) = Inr rs"
    using assms unfolding pdf process_pdf_Pdf blocks_def Let_def .
  show ?thesis
  proof (cases "blocks = []")
    case True
    with eq pdf show ?thesis by (simp add: blocks_def)
  next
    case ne: False
    with eq have eq1: "py_bind (score_all (char_case rt) (Min (set (map font_size blocks)))
                     (Max (set (map font_size blocks))) blocks) (\<lambda>sblocks.
                  py_bind (semantic_pass rt (make_query persona job_task) sblocks) (\<lambda>scored.
                  py_bind (select_top scored) (\<lambda>t. Inr [section_of name t scored]))) = Inr rs"
      by simp
    obtain sbs where
        sa: "score_all (char_case rt) (Min (set (map font_size blocks)))
               (Max (set (map font_size blocks))) blocks = Inr sbs"
      and eq2: "py_bind (semantic_pass rt (make_query persona job_task) sbs) (\<lambda>scored.
                  py_bind (select_top scored) (\<lambda>t. Inr [section_of name t scored])) = Inr rs"
      using py_bind_eq_Inr [THEN iffD1, OF eq1] by blast
    obtain scored where
        sp: "semantic_pass rt (make_query persona job_task) sbs = Inr scored"
      and eq3: "py_bind (select_top scored) (\<lambda>t. Inr [section_of name t scored]) = Inr rs"
      using py_bind_eq_Inr [THEN iffD1, OF eq2] by blast
    obtain t where st: "select_top scored = Inr t" and rs: "Inr [section_of name t scored] = Inr rs"
      using py_bind_eq_Inr [THEN iffD1, OF eq3] by blast
    from st have tm: "t \<in> set scored" by (rule select_top_mem)
    have "map btext scored = map btext blocks" "map page scored = map page blocks"
      using score_all_map [OF sa] semantic_pass_map [OF sp] by simp_all
    from map_eq_mem [OF this tm]
    have "\<exists>b\<in>set blocks. btext t = btext b \<and> page t = page b" .
    with ne rs pdf show ?thesis by (auto simp: blocks_def)
  qed
qed

text \<open>
  C12: When the encoder works on the query and on every block text, \<^verbatim>\<open>process_pdf\<close>
  raises nothing and returns exactly one section for a document with extractable text and
  none for a document without.
\<close>

theorem process_pdf_one_section:
  assumes "backend_ok rt (make_query persona job_task) (fst (extract_blocks doc))"
  shows "\<exists>rs. process_pdf rt name (Pdf doc) persona job_task = Inr rs \<and>
              length rs = (if fst (extract_blocks doc) = [] then 0 else 1)"
proof -
  obtain rs where rs: "process_pdf rt name (Pdf doc) persona job_task = Inr rs"
    using process_pdf_returns [OF assms] by blast
  with process_pdf_Inr [OF rs] show ?thesis
    by (auto split: if_splits)
qed

text \<open>
  C18: Every section \<^verbatim>\<open>process_pdf\<close> returns comes from a parsed document and carries
  the document's name, rank 1, a non-empty title, a page number between 1 and the number
  of pages, and a cleaned text (printable ASCII, single spaces, no space at the ends).
\<close>

theorem process_pdf_section_wf:
  assumes "process_pdf rt name pdf persona job_task = Inr rs" and "r \<in> set rs"
  shows "\<exists>doc. pdf = Pdf doc \<and> document r = name \<and> importance_rank r = 1 \<and>
           section_title r \<noteq> [] \<and> 1 \<le> page_number r \<and> page_number r \<le> length doc \<and>
           clean_shape (refined_text r)"
proof -
  from process_pdf_Inr [OF assms(1)] obtain doc t scored b where
      pdf: "pdf = Pdf doc" and r: "r = section_of name t scored"
    and b: "b \<in> set (fst (extract_blocks doc))" "btext t = btext b" "page t = page b"
    using assms(2) by (auto split: if_splits)
  from b(1) have "wf_block (length doc) b"
    unfolding fst_extract_blocks by (rule doc_blocks_wf)
  with b r pdf show ?thesis
    by (simp add: section_of_def wf_block_def clean_shape_clean)
qed

subsection \<open>Lemmas on \<^verbatim>\<open>main\<close>\<close>

lemma run_inv_init: "run_inv \<lparr>sections = [], subsections = [], global_rank = 1\<rparr>"
  by (simp add: run_inv_def)

lemma upto_snoc: "[1..1 + int k] = [1..int k] @ [int k + 1]"
  by (simp add: upto_rec2 add.commute)

lemma add_section_inv: "run_inv st \<Longrightarrow> run_inv (add_section st s)"
  by (simp add: run_inv_def add_section_def upto_snoc)

lemma foldl_add_section_inv: "run_inv st \<Longrightarrow> run_inv (foldl add_section st rs)"
  by (induction rs arbitrary: st) (simp_all add: add_section_inv)

lemma foldl_add_section_docs:
  "map document (sections (foldl add_section st rs)) = map document (sections st) @ map document rs"
  by (induction rs arbitrary: st) (simp_all add: add_section_def)

lemma process_pdf_docs:
  "process_pdf rt (path_name f) (fs f) persona job_task = Inr rs \<Longrightarrow>
   map document rs = doc_entry fs f"
  using process_pdf_Inr [of rt "path_name f" "fs f" persona job_task rs]
  by (auto simp: doc_entry_def section_of_def split: if_splits)

lemma main_loop_inv:
  "run_inv st \<Longrightarrow> main_loop rt fs persona job_task st fns = Inr st' \<Longrightarrow> run_inv st'"
  by (induction fns arbitrary: st)
     (auto split: if_splits sum.splits intro: foldl_add_section_inv)

lemma main_loop_docs:
  "main_loop rt fs persona job_task st fns = Inr st' \<Longrightarrow>
   map document (sections st') = map document (sections st) @ concat (map (doc_entry fs) fns)"
proof (induction fns arbitrary: st)
  case Nil
  then show ?case by simp
next
  case (Cons f fns)
  show ?case
  proof (cases "fs f = Missing")
    case True
    with Cons show ?thesis by (simp add: doc_entry_def)
  next
    case False
    with Cons.prems obtain rs where
        rs: "process_pdf rt (path_name f) (fs f) persona job_task = Inr rs"
      and rest: "main_loop rt fs persona job_task (foldl add_section st rs) fns = Inr st'"
      by (auto split: sum.splits)
    from Cons.IH [OF rest] process_pdf_docs [where fs = fs and f = f, OF rs] show ?thesis
      by (simp add: foldl_add_section_docs)
  qed
qed

lemma main_loop_unreadable:
  "fs f = Unreadable \<Longrightarrow> f \<in> set fns \<Longrightarrow> main_loop rt fs persona job_task st fns \<noteq> Inr st'"
proof (induction fns arbitrary: st)
  case Nil
  then show ?case by simp
next
  case (Cons g fns)
  then show ?case
    by (cases "g = f") (auto simp: process_pdf_def split: sum.splits)
qed

lemma main_loop_returns:
  "\<forall>f\<in>set fns. fs f = Missing \<or>
      (\<exists>doc. fs f = Pdf doc \<and> backend_ok rt (make_query persona job_task) (fst (extract_blocks doc)))
   \<Longrightarrow> \<exists>st'. main_loop rt fs persona job_task st fns = Inr st'"
proof (induction fns arbitrary: st)
  case Nil
  then show ?case by simp
next
  case (Cons f fns)
  show ?case
  proof (cases "fs f = Missing")
    case True
    with Cons show ?thesis by simp
  next
    case False
    with Cons.prems obtain doc where doc: "fs f = Pdf doc"
      and ok: "backend_ok rt (make_query persona job_task) (fst (extract_blocks doc))"
      by auto
    obtain rs where "process_pdf rt (path_name f) (Pdf doc) persona job_task = Inr rs"
      using process_pdf_returns [OF ok] by blast
    with doc Cons show ?thesis by simp
  qed
qed

lemma main_Saved:
  assumes "main rt (Some input_data) fs timestamp = Saved out"
  shows "\<exists>persona job_task docs fns st.
           in_persona_role input_data = Some persona \<and> in_job_task input_data = Some job_task \<and>
           in_documents input_data = Some docs \<and> those docs = Some fns \<and>
           main_loop rt fs persona job_task
             \<lparr>sections = [], subsections = [], global_rank = 1\<rparr> fns = Inr st \<and>
           extracted_sections out = sections st \<and> subsection_analysis out = subsections st \<and>
           input_documents (meta out) = fns"
  using assms by (auto simp: main_def split: option.splits sum.splits)

end
