(* ===== verification/Spec2Isabelle.thy ===== *)
theory Spec2Isabelle
  imports Pipeline
begin

text \<open>
  \<^bold>\<open>A verified model of the persona-driven section ranker.\<close>
  The program (\<^verbatim>\<open>src/src/main.py\<close>, one Python file) reads an input descriptor
  (persona role, task, list of PDF file names), and for each PDF picks the single text
  span that scores highest under a hybrid of layout heuristics and semantic similarity to
  the query ``persona task'', then writes a JSON document listing, per processed PDF, the
  span as section title with a global rank and page, and a cleaned context excerpt.

  \<^bold>\<open>Parts and how they interact.\<close> \<^verbatim>\<open>main\<close> loops over the documents and calls
  \<^verbatim>\<open>process_pdf\<close>, which calls in sequence \<^verbatim>\<open>extract_blocks\<close> (blocks and the
  font-size list), \<^verbatim>\<open>score_block\<close> on every block (structure score), the embedding
  model (semantic score), a sort (selection), \<^verbatim>\<open>refine_context\<close> and
  \<^verbatim>\<open>clean_refined_text\<close>. The block dictionaries are mutated in place by the
  scoring passes; the model gives each stage its own record, each an extension of the
  previous one (\<open>text_block\<close>, \<open>struct_block\<close>, \<open>scored_block\<close>).

  \<^bold>\<open>Theories.\<close>
  \<^item> \<open>Prelude\<close>: the model's types (\<open>pystr\<close>: a Python \<open>str\<close> as a list of code
    points; \<open>py_error\<close>: the exceptions; \<open>py_bind\<close>: sequencing of raising
    computations), CPython's whitespace and printable classes, shared list lemmas.
  \<^item> \<open>PyStr\<close>: \<^verbatim>\<open>str.strip\<close>, the \<^verbatim>\<open>in\<close> test, \<^verbatim>\<open>str.replace\<close>,
    \<^verbatim>\<open>str.isupper\<close>, \<^verbatim>\<open>str.join\<close> and the two \<^verbatim>\<open>re.sub\<close> calls, each after
    CPython, with their declarative characterisations (substring, character map,
    quantifiers over the characters, whitespace runs).
  \<^item> \<open>Extract\<close>: the parser's output (\<open>pdf_doc\<close>) and \<^verbatim>\<open>extract_blocks\<close>
    (lines 17--39) as three nested accumulating loops (\<open>extract_span\<close>,
    \<open>extract_layout_block\<close>, \<open>extract_pages\<close>); proved equal to a list
    comprehension, with the block invariant \<open>wf_block\<close> and page order.
  \<^item> \<open>Score\<close>: \<^verbatim>\<open>score_block\<close> (lines 41--50) with raising float division,
    Python's \<^verbatim>\<open>min\<close>/\<^verbatim>\<open>max\<close> (line 80) and the scoring loop (lines 82--83);
    proved equal to its functional specification with the builtins read as what they
    mean (substring test, upper-case condition on the characters, literal constants),
    never dividing by zero on a document's own range, bounded in \<open>[0, 2.1)\<close> and
    monotone in the font size.
  \<^item> \<open>Select\<close>: the black boxes in the record \<open>runtime\<close> (Unicode case database,
    encoder, cosine similarity), the semantic pass (lines 85--92) and the selection
    \<^verbatim>\<open>sorted(...)[0]\<close> (line 94) as the head of Isabelle's stable \<open>sort_key\<close>;
    proved equal to the first-maximum scan \<open>first_max\<close>, hence the stable tie-break;
    the semantic pass is characterised field by field (semantic score the similarity,
    total score the sum, the other fields unchanged) and fails on any encoder failure.
  \<^item> \<open>Refine\<close>: \<^verbatim>\<open>refine_context\<close> (lines 52--65), its loop as \<open>collect_context\<close>;
    the window is open at both ends.
  \<^item> \<open>Clean\<close>: \<^verbatim>\<open>clean_refined_text\<close> (lines 67--72): output shape, idempotence,
    and that a whitespace character other than space and newline (tab, no-break space,
    ...) is deleted rather than made a separator, gluing the words around it.
  \<^item> \<open>Pipeline\<close>: \<^verbatim>\<open>process_pdf\<close> (lines 74--104) and \<^verbatim>\<open>main\<close>
    (lines 106--155) with its loop \<open>main_loop\<close> over the file names and the loop
    state \<open>run_state\<close> (the two output lists and \<^verbatim>\<open>global_rank\<close>); the
    per-document contract (\<open>score_doc\<close>, which writes every block's three scores
    out as record fields, and \<open>section_of\<close>) and the loop invariant \<open>run_inv\<close>.
    The document name \<^verbatim>\<open>pdf_file.name\<close> is \<open>path_name\<close>, pathlib's last
    component of \<^verbatim>\<open>INPUT_PDF_DIR / filename\<close>.
  \<^item> This theory: an example run over four file names (one missing, one without text)
    and the properties of whole runs: consecutive ranks, parallel output lists, sections
    in input order, abort on an unreadable file, completion when the backend works.

  \<^bold>\<open>Modelling choices.\<close> Python floats are \<open>real\<close>: rounding is not modelled,
  so the bounds and the monotonicity hold for exact arithmetic (the constants 1e-5, 0.5,
  0.3, 100 and 250 are exact rationals); in floating point, with a very large font-size
  range, the size term of a largest-font block can round to 1.0 and the strict bound
  2.1 can be reached. Strings are code-point lists; the Unicode case
  database is a parameter of type \<open>pychar \<Rightarrow> ucase\<close>, exact for ASCII via
  \<open>ascii_case\<close>; the whitespace class is CPython's exact list. The embedding backend is
  an encoder \<open>pystr \<Rightarrow> 'v option\<close> (\<open>None\<close>: it raised) and a similarity
  function; the batched call is taken to encode each text in order. The file system is a
  function from file names to \<open>pdf_file\<close>; the parsed input JSON has \<open>None\<close> for a
  missing key. No loop needs fuel: every loop runs over a finite list (\<open>fun\<close>,
  \<open>primrec\<close>, \<open>foldl\<close>), and the two non-structural recursions
  (\<open>py_replace\<close>, \<open>re_sub_ws\<close>) are \<open>function\<close>s with a length measure.

  \<^bold>\<open>Not modelled.\<close> PyMuPDF's parsing of PDF bytes (its output is the input
  \<open>pdf_doc\<close>), the embedding model's numerics, JSON parsing and serialisation, the
  configuration paths and \<^verbatim>\<open>mkdir\<close>, printing, and the timestamp (a parameter).
\<close>

section \<open>An example run\<close>

text \<open>
  A runtime whose encoder maps a text to its length and whose similarity is 1 for equal
  codes and 1/2 otherwise; three parsed documents (one with a heading and a body line
  and an image block, one with only an image block, one whose text is on its second
  page); a file system in which a fourth name is missing and a fifth unreadable.
\<close>

definition ex_rt :: "nat runtime" where
  "ex_rt = \<lparr>char_case = ascii_case, encode = (\<lambda>s. Some (length s)),
            cos_sim = (\<lambda>u v. if u = v then 1 else 1 / 2)\<rparr>"
definition ex_doc_a :: pdf_doc where
  "ex_doc_a = [[\<lparr>block_type = 1, block_lines = []\<rparr>,
     \<lparr>block_type = 0, block_lines =
          [[\<lparr>span_text = ustr ''INTRO'', span_size = 14, span_font = ustr ''Arial-Bold'',
             span_bbox = \<lparr>x0 = 0, y0 = 50, x1 = 90, y1 = 64\<rparr>\<rparr>],
           [\<lparr>span_text = ustr ''Body  text '', span_size = 10, span_font = ustr ''Arial'',
             span_bbox = \<lparr>x0 = 0, y0 = 80, x1 = 90, y1 = 90\<rparr>\<rparr>]]\<rparr>]]"
definition ex_doc_b :: pdf_doc where
  "ex_doc_b = [[\<lparr>block_type = 1, block_lines = []\<rparr>]]"
definition ex_doc_c :: pdf_doc where
  "ex_doc_c = [[], [\<lparr>block_type = 0, block_lines =
          [[\<lparr>span_text = ustr ''Methods'', span_size = 12, span_font = ustr ''Times'',
             span_bbox = \<lparr>x0 = 0, y0 = 300, x1 = 90, y1 = 312\<rparr>\<rparr>]]\<rparr>]]"
definition ex_fs :: "pystr \<Rightarrow> pdf_file" where
  "ex_fs f = (if f = ustr ''a.pdf'' then Pdf ex_doc_a else if f = ustr ''b.pdf'' then Pdf ex_doc_b
              else if f = ustr ''c.pdf'' then Pdf ex_doc_c else if f = ustr ''bad.pdf'' then Unreadable
              else Missing)"
definition ex_input :: input_json where
  "ex_input = \<lparr>in_persona_role = Some (ustr ''Analyst''), in_job_task = Some (ustr ''Find methods''),
     in_documents = Some [Some (ustr ''a.pdf''), Some (ustr ''gone.pdf''), Some (ustr ''b.pdf''), Some (ustr ''c.pdf'')]\<rparr>"

definition ex_input_bad :: input_json where
  "ex_input_bad = ex_input\<lparr>in_documents := Some [Some (ustr ''a.pdf''), Some (ustr ''bad.pdf'')]\<rparr>"

text \<open>The output the example run saves.\<close>

definition ex_out :: output_data where
  "ex_out =
     \<lparr>meta = \<lparr>input_documents = [ustr ''a.pdf'', ustr ''gone.pdf'', ustr ''b.pdf'', ustr ''c.pdf''],
              meta_persona = ustr ''Analyst'', meta_job_to_be_done = ustr ''Find methods'',
              processing_timestamp = ustr ''T''\<rparr>,
      extracted_sections =
        [\<lparr>document = ustr ''a.pdf'', section_title = ustr ''INTRO'', importance_rank = 1, page_number = 1\<rparr>,
         \<lparr>document = ustr ''c.pdf'', section_title = ustr ''Methods'', importance_rank = 2, page_number = 2\<rparr>],
      subsection_analysis =
        [\<lparr>sub_document = ustr ''a.pdf'', sub_refined_text = ustr ''INTRO Body text'', sub_page_number = 1\<rparr>,
         \<lparr>sub_document = ustr ''c.pdf'', sub_refined_text = ustr ''Methods'', sub_page_number = 2\<rparr>]\<rparr>"

lemmas ex_eval = ex_rt_def ex_doc_a_def ex_doc_b_def ex_doc_c_def
  extract_blocks_def extract_layout_block_def extract_span_def py_strip_def ustr_def pyclass_simps
  py_min_def py_max_def score_block_def py_fdiv_def Let_def size_eps_def bold_bonus_def upper_bonus_def
  top_bonus_def page_top_def py_isupper_def ascii_case_def semantic_pass_def with_structure_score_def
  with_semantic_score_def make_query_def select_top_def py_first_def refine_context_def context_window_def
  clean_refined_text_steps

lemma ex_process_a:
  "process_pdf ex_rt (ustr ''a.pdf'') (Pdf ex_doc_a) (ustr ''Analyst'') (ustr ''Find methods'') =
     Inr [\<lparr>document = ustr ''a.pdf'', section_title = ustr ''INTRO'', importance_rank = 1,
           page_number = 1, refined_text = ustr ''INTRO Body text''\<rparr>]"
  by (simp add: process_pdf_def ex_eval)

lemma ex_process_b:
  "process_pdf ex_rt (ustr ''b.pdf'') (Pdf ex_doc_b) (ustr ''Analyst'') (ustr ''Find methods'') = Inr []"
  by (simp add: process_pdf_def ex_eval)

lemma ex_process_c:
  "process_pdf ex_rt (ustr ''c.pdf'') (Pdf ex_doc_c) (ustr ''Analyst'') (ustr ''Find methods'') =
     Inr [\<lparr>document = ustr ''c.pdf'', section_title = ustr ''Methods'', importance_rank = 1,
           page_number = 2, refined_text = ustr ''Methods''\<rparr>]"
  by (simp add: process_pdf_def ex_eval)

lemma ex_path_names:
  "path_name (ustr ''a.pdf'') = ustr ''a.pdf''" "path_name (ustr ''b.pdf'') = ustr ''b.pdf''"
  "path_name (ustr ''c.pdf'') = ustr ''c.pdf''"
  by (simp_all add: path_name_def ustr_def)

lemma ex_run:
  "main ex_rt (Some ex_input) ex_fs (ustr ''T'') = Saved ex_out"
proof -
  have fs: "ex_fs (ustr ''a.pdf'') = Pdf ex_doc_a" "ex_fs (ustr ''b.pdf'') = Pdf ex_doc_b"
    "ex_fs (ustr ''c.pdf'') = Pdf ex_doc_c" "ex_fs (ustr ''gone.pdf'') = Missing"
    by (simp_all add: ex_fs_def ustr_def)
  show ?thesis
    by (simp add: main_def ex_input_def fs ex_path_names ex_process_a ex_process_b ex_process_c
        add_section_def ex_out_def)
qed

section \<open>Properties of the whole run\<close>

text \<open>
  C13: In a saved output the importance ranks of the extracted sections are exactly
  1, 2, ..., n in list order: the global counter gives one rank per section, with no gap
  for skipped (missing or empty) documents.
\<close>

theorem main_ranks_consecutive:
  assumes "main rt (Some input_data) fs timestamp = Saved out"
  shows "map importance_rank (extracted_sections out) = [1..int (length (extracted_sections out))]"
proof -
  from main_Saved [OF assms] obtain persona job_task fns st where
      run: "main_loop rt fs persona job_task \<lparr>sections = [], subsections = [], global_rank = 1\<rparr> fns = Inr st"
    and out: "extracted_sections out = sections st"
    by blast
  from main_loop_inv [OF run_inv_init run] out show ?thesis
    by (simp add: run_inv_def)
qed

theorem main_ranks_consecutive_witness:
  "main ex_rt (Some ex_input) ex_fs (ustr ''T'') = Saved ex_out
   \<and> map importance_rank (extracted_sections ex_out) = [1..int (length (extracted_sections ex_out))]"
  using ex_run main_ranks_consecutive [OF ex_run] by simp

text \<open>
  C15: In a saved output the two lists are parallel: the \<^verbatim>\<open>extracted_sections\<close> and
  \<^verbatim>\<open>subsection_analysis\<close> entries agree one for one on the document name and the page.
\<close>

theorem main_lists_parallel:
  assumes "main rt (Some input_data) fs timestamp = Saved out"
  shows "map document (extracted_sections out) = map sub_document (subsection_analysis out) \<and>
         map page_number (extracted_sections out) = map sub_page_number (subsection_analysis out)"
proof -
  from main_Saved [OF assms] obtain persona job_task fns st where
      run: "main_loop rt fs persona job_task \<lparr>sections = [], subsections = [], global_rank = 1\<rparr> fns = Inr st"
    and out: "extracted_sections out = sections st" "subsection_analysis out = subsections st"
    by blast
  from main_loop_inv [OF run_inv_init run] out show ?thesis
    by (simp add: run_inv_def)
qed

theorem main_lists_parallel_witness:
  "main ex_rt (Some ex_input) ex_fs (ustr ''T'') = Saved ex_out
   \<and> map document (extracted_sections ex_out) = map sub_document (subsection_analysis ex_out)
   \<and> map page_number (extracted_sections ex_out) = map sub_page_number (subsection_analysis ex_out)"
  using ex_run main_lists_parallel [OF ex_run] by simp

text \<open>
  C14: A saved output lists one section per configured file that exists and has
  extractable text, in the order of the input descriptor (missing and empty documents
  contribute nothing, so ranks follow processing order and not the scores of other
  documents), and its metadata lists every configured file name.
\<close>

theorem main_sections_in_input_order:
  assumes "main rt (Some input_data) fs timestamp = Saved out"
    and "in_documents input_data = Some docs" and "those docs = Some fns"
  shows "map document (extracted_sections out) = concat (map (doc_entry fs) fns) \<and>
         input_documents (meta out) = fns"
proof -
  from main_Saved [OF assms(1)] assms(2,3) obtain persona job_task st where
      run: "main_loop rt fs persona job_task \<lparr>sections = [], subsections = [], global_rank = 1\<rparr> fns = Inr st"
    and out: "extracted_sections out = sections st" "input_documents (meta out) = fns"
    by auto
  from main_loop_docs [OF run] out show ?thesis by simp
qed

theorem main_sections_in_input_order_witness:
  "main ex_rt (Some ex_input) ex_fs (ustr ''T'') = Saved ex_out
   \<and> map document (extracted_sections ex_out) =
       concat (map (doc_entry ex_fs) [ustr ''a.pdf'', ustr ''gone.pdf'', ustr ''b.pdf'', ustr ''c.pdf''])
   \<and> input_documents (meta ex_out) = [ustr ''a.pdf'', ustr ''gone.pdf'', ustr ''b.pdf'', ustr ''c.pdf'']"
proof -
  have docs: "in_documents ex_input =
      Some [Some (ustr ''a.pdf''), Some (ustr ''gone.pdf''), Some (ustr ''b.pdf''), Some (ustr ''c.pdf'')]"
    by (simp add: ex_input_def)
  have fns: "those [Some (ustr ''a.pdf''), Some (ustr ''gone.pdf''), Some (ustr ''b.pdf''), Some (ustr ''c.pdf'')]
      = Some [ustr ''a.pdf'', ustr ''gone.pdf'', ustr ''b.pdf'', ustr ''c.pdf'']"
    by simp
  show ?thesis
    using ex_run main_sections_in_input_order [OF ex_run docs fns] by simp
qed

text \<open>
  C21: An unreadable file among the configured documents aborts the whole run: the
  exception of \<^verbatim>\<open>fitz.open\<close> is not caught, so no output is saved.
\<close>

theorem main_unreadable_aborts:
  assumes "fs f = Unreadable" and "in_documents input_data = Some docs"
    and "those docs = Some fns" and "f \<in> set fns"
  shows "main rt (Some input_data) fs timestamp \<noteq> Saved out"
proof
  assume "main rt (Some input_data) fs timestamp = Saved out"
  from main_Saved [OF this] assms(2,3) obtain persona job_task st where
      run: "main_loop rt fs persona job_task \<lparr>sections = [], subsections = [], global_rank = 1\<rparr> fns = Inr st"
    by auto
  with main_loop_unreadable [where fs = fs and f = f, OF assms(1,4)] show False by blast
qed

theorem main_unreadable_aborts_witness:
  "\<forall>out. main ex_rt (Some ex_input_bad) ex_fs (ustr ''T'') \<noteq> Saved out"
proof
  fix out
  have fns: "those [Some (ustr ''a.pdf''), Some (ustr ''bad.pdf'')] = Some [ustr ''a.pdf'', ustr ''bad.pdf'']"
    by simp
  show "main ex_rt (Some ex_input_bad) ex_fs (ustr ''T'') \<noteq> Saved out"
    by (rule main_unreadable_aborts [where f = "ustr ''bad.pdf''", OF _ _ fns])
       (simp_all add: ex_fs_def ex_input_bad_def ustr_def)
qed

text \<open>
  C22: A well-formed descriptor whose files are each missing or a parsed document on
  which the encoder works always leads to a saved output: the driver terminates without
  an exception.
\<close>

theorem main_completes:
  assumes "in_persona_role input_data = Some persona" and "in_job_task input_data = Some job_task"
    and "in_documents input_data = Some docs" and "those docs = Some fns"
    and "\<forall>f\<in>set fns. fs f = Missing \<or>
           (\<exists>doc. fs f = Pdf doc \<and> backend_ok rt (make_query persona job_task) (fst (extract_blocks doc)))"
  shows "\<exists>out. main rt (Some input_data) fs timestamp = Saved out"
proof -
  obtain st where "main_loop rt fs persona job_task
                     \<lparr>sections = [], subsections = [], global_rank = 1\<rparr> fns = Inr st"
    using main_loop_returns [OF assms(5)] by blast
  with assms(1-4) show ?thesis by (simp add: main_def)
qed

theorem main_completes_witness:
  "\<exists>out. main ex_rt (Some ex_input) ex_fs (ustr ''T'') = Saved out"
proof -
  have fns: "those [Some (ustr ''a.pdf''), Some (ustr ''gone.pdf''), Some (ustr ''b.pdf''), Some (ustr ''c.pdf'')]
      = Some [ustr ''a.pdf'', ustr ''gone.pdf'', ustr ''b.pdf'', ustr ''c.pdf'']"
    by simp
  show ?thesis
    by (rule main_completes [OF _ _ _ fns])
       (auto simp: ex_input_def ex_fs_def ex_rt_def backend_ok_def list_all_iff ustr_def)
qed

section \<open>Witnesses of the per-document properties\<close>

lemma ex_backend_ok:
  "backend_ok ex_rt (make_query (ustr ''Analyst'') (ustr ''Find methods'')) (fst (extract_blocks ex_doc_a))"
  by (simp add: backend_ok_def ex_rt_def list_all_iff)

theorem process_pdf_contract_witness:
  "backend_ok ex_rt (make_query (ustr ''Analyst'') (ustr ''Find methods'')) (fst (extract_blocks ex_doc_a))
   \<and> process_pdf ex_rt (ustr ''a.pdf'') (Pdf ex_doc_a) (ustr ''Analyst'') (ustr ''Find methods'') =
       (case score_doc ex_rt (make_query (ustr ''Analyst'') (ustr ''Find methods'')) (fst (extract_blocks ex_doc_a)) of
          [] \<Rightarrow> Inr []
        | t0 # ts \<Rightarrow> Inr [section_of (ustr ''a.pdf'') (first_max total_score t0 ts) (t0 # ts)])"
  using ex_backend_ok process_pdf_contract [OF ex_backend_ok] by simp

theorem process_pdf_one_section_witness:
  "backend_ok ex_rt (make_query (ustr ''Analyst'') (ustr ''Find methods'')) (fst (extract_blocks ex_doc_a))
   \<and> (\<exists>rs. process_pdf ex_rt (ustr ''a.pdf'') (Pdf ex_doc_a) (ustr ''Analyst'') (ustr ''Find methods'') = Inr rs
          \<and> length rs = (if fst (extract_blocks ex_doc_a) = [] then 0 else 1))"
  using ex_backend_ok process_pdf_one_section [OF ex_backend_ok] by simp

theorem process_pdf_section_wf_witness:
  "let r = \<lparr>document = ustr ''a.pdf'', section_title = ustr ''INTRO'', importance_rank = 1,
            page_number = 1, refined_text = ustr ''INTRO Body text''\<rparr>
   in process_pdf ex_rt (ustr ''a.pdf'') (Pdf ex_doc_a) (ustr ''Analyst'') (ustr ''Find methods'') = Inr [r]
      \<and> (\<exists>doc. Pdf ex_doc_a = Pdf doc \<and> document r = ustr ''a.pdf'' \<and> importance_rank r = 1 \<and>
           section_title r \<noteq> [] \<and> 1 \<le> page_number r \<and> page_number r \<le> length doc \<and>
           clean_shape (refined_text r))"
  unfolding Let_def
  using ex_process_a process_pdf_section_wf [OF ex_process_a] by simp

end
